theory Spec2Isabelle
  imports Complex_Main
begin

section \<open>JavaScript values and library functions used by the scoring layer\<close>

text \<open>
  Numbers of the source are IEEE doubles; they are modelled as \<^typ>\<open>real\<close>, so every
  statement below is about the exact arithmetic that the code writes down (rounding error of
  the floating-point operations is outside the model). An optional number
  (\<^verbatim>\<open>z.number().optional()\<close>) is a \<^typ>\<open>real option\<close>, \<open>None\<close> being \<^verbatim>\<open>undefined\<close>.
  Strings are \<^typ>\<open>string\<close>, a character standing for a code unit below 256;
  \<open>toLowerCase\<close> is modelled on the ASCII letters. In the one computation that can
  leave the finite numbers, the 3-year growth rate of \<open>calculateTrends\<close>, results are
  values of \<open>jsnum\<close>, with \<^verbatim>\<open>NaN\<close> and overflow to \<^verbatim>\<open>Infinity\<close> modelled.
\<close>

definition truthy :: "real option \<Rightarrow> bool" where
  \<comment> \<open>\<^verbatim>\<open>if (x)\<close> for an optional number: \<^verbatim>\<open>undefined\<close> and \<^verbatim>\<open>0\<close> are falsy.\<close>
  "truthy x = (case x of None \<Rightarrow> False | Some v \<Rightarrow> v \<noteq> 0)"

definition js_or :: "real option \<Rightarrow> real option \<Rightarrow> real option" where
  \<comment> \<open>\<^verbatim>\<open>a || b\<close> on optional numbers.\<close>
  "js_or a b = (if truthy a then a else b)"

definition or0 :: "real option \<Rightarrow> real" where
  \<comment> \<open>\<^verbatim>\<open>a || 0\<close>; also the read of a number behind a truthiness guard.\<close>
  "or0 a = (case a of None \<Rightarrow> 0 | Some v \<Rightarrow> v)"

definition Math_round :: "real \<Rightarrow> real" where
  \<comment> \<open>\<^verbatim>\<open>Math.round\<close>: nearest integer, ties towards plus infinity.\<close>
  "Math_round x = of_int \<lfloor>x + 1 / 2\<rfloor>"

definition toLowerCase_char :: "char \<Rightarrow> char" where
  "toLowerCase_char c =
     (let n = (of_char c :: nat) in if 65 \<le> n \<and> n \<le> 90 then char_of (n + 32) else c)"

definition toLowerCase :: "string \<Rightarrow> string" where
  "toLowerCase s = map toLowerCase_char s"

fun startsWith :: "string \<Rightarrow> string \<Rightarrow> bool" where
  "startsWith s [] = True"
| "startsWith [] (p # ps) = False"
| "startsWith (c # cs) (p # ps) = (c = p \<and> startsWith cs ps)"

fun includes_str :: "string \<Rightarrow> string \<Rightarrow> bool" where
  \<comment> \<open>\<^verbatim>\<open>s.includes(p)\<close>: \<open>p\<close> occurs in \<open>s\<close> as a contiguous substring.\<close>
  "includes_str [] p = (p = [])"
| "includes_str (c # cs) p = (startsWith (c # cs) p \<or> includes_str cs p)"

fun join :: "string \<Rightarrow> string list \<Rightarrow> string" where
  \<comment> \<open>\<^verbatim>\<open>xs.join(sep)\<close>\<close>
  "join sep [] = []"
| "join sep [x] = x"
| "join sep (x # y # ys) = x @ sep @ join sep (y # ys)"

section \<open>Constants (config/constants)\<close>

definition MILLISECONDS_PER_YEAR :: real where
  "MILLISECONDS_PER_YEAR = 1000 * 60 * 60 * 24 * 365"

definition MIN_EBITDA :: real where "MIN_EBITDA = 500000"
definition MAX_EBITDA :: real where "MAX_EBITDA = 1000000"
definition MIN_REVENUE :: real where "MIN_REVENUE = 3000000"
definition MAX_REVENUE :: real where "MAX_REVENUE = 6000000"
definition MIN_EMPLOYEES :: real where "MIN_EMPLOYEES = 15"
definition MAX_EMPLOYEES :: real where "MAX_EMPLOYEES = 40"

definition TARGET_SIC_CODES :: "string list" where
  "TARGET_SIC_CODES = [''62020'', ''62090'']"

section \<open>The company record\<close>

text \<open>
  The fields of \<^verbatim>\<open>CompanySchema\<close> that the scoring layer reads. Nested objects are
  flattened with their path as the field name (\<^verbatim>\<open>company.financials.revenue\<close> is
  \<open>financials_revenue\<close>). \<open>date_of_incorporation\<close> holds the epoch milliseconds that
  \<^verbatim>\<open>new Date(company.date_of_incorporation).getTime()\<close> yields for the stored
  \<^verbatim>\<open>YYYY-MM-DD\<close> string.
\<close>

record Company =
  company_name :: string
  company_status :: "string option"
  date_of_incorporation :: int
  registered_address :: "string option"
  registered_address_structured :: "(string \<times> string) list option"
  sic_codes :: "string list"
  has_been_liquidated :: "bool option"
  has_insolvency_history :: "bool option"
  financials_revenue :: "real option"
  financials_profit :: "real option"
  financials_ebitda :: "real option"
  financials_employees :: "real option"
  enrichment_headcount :: "real option"
  enrichment_tech_stack :: "string list option"
  enrichment_business_keywords :: "string list option"
  enrichment_services :: "string list option"
  enrichment_business_description :: "string option"
  investment_score_location_distance_km :: "real option"

text \<open>
  The two things the scorer takes from its surroundings and not from the record: the clock
  (\<^verbatim>\<open>Date.now()\<close>, epoch milliseconds) and the distance resolver
  \<^verbatim>\<open>getDistanceFromLondon\<close>, which performs a network lookup and answers \<^verbatim>\<open>null\<close>
  (\<open>None\<close>) on every failure.
\<close>

record Env =
  now :: int
  getDistanceFromLondon :: "string option \<Rightarrow> (string \<times> string) list option \<Rightarrow> real option"

section \<open>utils/dateHelpers and utils/geocoding\<close>

definition calculateYearsActive :: "int \<Rightarrow> int \<Rightarrow> real" where
  \<comment> \<open>first argument: \<^verbatim>\<open>Date.now()\<close>; second: \<^verbatim>\<open>date.getTime()\<close>\<close>
  "calculateYearsActive now_ms date_ms = of_int (now_ms - date_ms) / MILLISECONDS_PER_YEAR"

definition calculateLocationScore :: "real option \<Rightarrow> real" where
  "calculateLocationScore distanceKm =
     (case distanceKm of
        None \<Rightarrow> 0
      | Some d \<Rightarrow>
          if d \<le> 25 then 25
          else if d \<le> 50 then 20
          else if d \<le> 100 then 15
          else if d \<le> 150 then 10
          else if d \<le> 200 then 5
          else 0)"

section \<open>calculateInvestmentScore\<close>

record ScoreFactor =
  factor :: string
  fvalue :: real
  weight :: real

record InvestmentScore =
  score :: real
  factors :: "ScoreFactor list"

definition ageScore :: "real \<Rightarrow> real" where
  \<comment> \<open>\<^verbatim>\<open>Math.min(25, yearsActive * 8.33)\<close>\<close>
  "ageScore yearsActive = min 25 (yearsActive * 8.33)"

definition microsoftKeywords :: "string list" where
  "microsoftKeywords =
     [''microsoft'', ''azure'', ''office365'', ''m365'', ''sharepoint'', ''teams'', ''power'',
      ''dynamics'']"

definition isMicrosoftTech :: "string \<Rightarrow> bool" where
  \<comment> \<open>\<^verbatim>\<open>microsoftKeywords.some(keyword => tech.toLowerCase().includes(keyword))\<close>\<close>
  "isMicrosoftTech tech = list_ex (\<lambda>keyword. includes_str (toLowerCase tech) keyword) microsoftKeywords"

text \<open>
  The size factor is the triple \<open>(sizeType, sizeValue, sizeScore)\<close> of the source's three
  mutable locals; the three partial-credit blocks run one after the other on that state.
\<close>

definition sizePartialEmployees :: "real option \<Rightarrow> string \<times> real \<times> real \<Rightarrow> string \<times> real \<times> real" where
  "sizePartialEmployees headcount st =
     (if truthy headcount then
        (if or0 headcount < MIN_EMPLOYEES then
           (''employees'', or0 headcount, max 0 ((or0 headcount / MIN_EMPLOYEES) * 15))
         else if or0 headcount > MAX_EMPLOYEES then
           (''employees'', or0 headcount,
            max 0 (15 - ((or0 headcount - MAX_EMPLOYEES) / MAX_EMPLOYEES) * 15))
         else st)
      else st)"

definition sizePartialRevenue :: "real option \<Rightarrow> string \<times> real \<times> real \<Rightarrow> string \<times> real \<times> real" where
  "sizePartialRevenue revenue st =
     (if snd (snd st) = 0 \<and> truthy revenue then
        (if or0 revenue < MIN_REVENUE then
           (''revenue'', or0 revenue, max 0 ((or0 revenue / MIN_REVENUE) * 15))
         else if or0 revenue > MAX_REVENUE then
           (''revenue'', or0 revenue,
            max 0 (15 - ((or0 revenue - MAX_REVENUE) / MAX_REVENUE) * 15))
         else st)
      else st)"

definition sizePartialEbitda :: "real option \<Rightarrow> string \<times> real \<times> real \<Rightarrow> string \<times> real \<times> real" where
  "sizePartialEbitda ebitda st =
     (if snd (snd st) = 0 \<and> truthy ebitda then
        (if or0 ebitda < MIN_EBITDA then
           (''ebitda'', or0 ebitda, max 0 ((or0 ebitda / MIN_EBITDA) * 15))
         else if or0 ebitda > MAX_EBITDA then
           (''ebitda'', or0 ebitda,
            max 0 (15 - ((or0 ebitda - MAX_EBITDA) / MAX_EBITDA) * 15))
         else st)
      else st)"

definition sizeFactor :: "Company \<Rightarrow> string \<times> real \<times> real" where
  "sizeFactor company =
     (let headcount = js_or (financials_employees company) (enrichment_headcount company);
          revenue = financials_revenue company;
          ebitda = financials_ebitda company
      in
        if truthy headcount \<and> or0 headcount \<ge> MIN_EMPLOYEES \<and> or0 headcount \<le> MAX_EMPLOYEES
        then (''employees'', or0 headcount, 25)
        else if truthy revenue \<and> or0 revenue \<ge> MIN_REVENUE \<and> or0 revenue \<le> MAX_REVENUE
        then (''revenue'', or0 revenue, 25)
        else if truthy ebitda \<and> or0 ebitda \<ge> MIN_EBITDA \<and> or0 ebitda \<le> MAX_EBITDA
        then (''ebitda'', or0 ebitda, 25)
        else
          sizePartialEbitda ebitda
            (sizePartialRevenue revenue
               (sizePartialEmployees headcount (''none'', 0, 0))))"

definition sizeLabel :: "string \<Rightarrow> string" where
  "sizeLabel sizeType =
     (if sizeType = ''employees'' then ''Size (employees)''
      else if sizeType = ''revenue'' then ''Size (revenue)''
      else if sizeType = ''ebitda'' then ''Size (EBITDA)''
      else ''Size'')"

definition microsoftFactor :: "Company \<Rightarrow> real \<times> real" where
  \<comment> \<open>\<open>(microsoftCount, microsoftScore)\<close>\<close>
  "microsoftFactor company =
     (case enrichment_tech_stack company of
        None \<Rightarrow> (0, 0)
      | Some tech_stack \<Rightarrow>
          if length tech_stack > 0 then
            (let microsoftCount = real (length (filter isMicrosoftTech tech_stack)) in
               if microsoftCount > 0 then (microsoftCount, min 25 (microsoftCount * 8.33))
               else (microsoftCount, 0))
          else (0, 0))"

definition locationDistance :: "Env \<Rightarrow> Company \<Rightarrow> real option" where
  "locationDistance env company =
     (case investment_score_location_distance_km company of
        Some d \<Rightarrow> Some d
      | None \<Rightarrow>
          getDistanceFromLondon env (registered_address company)
            (registered_address_structured company))"

definition calculateInvestmentScore :: "Env \<Rightarrow> Company \<Rightarrow> InvestmentScore" where
  "calculateInvestmentScore env company =
     (let yearsActive = calculateYearsActive (now env) (date_of_incorporation company);
          ageS = ageScore yearsActive;
          f1 = \<lparr>factor = ''Company Age (years)'', fvalue = yearsActive, weight = ageS\<rparr>;
          sc1 = 0 + ageS;
          (sizeType, sizeValue, sizeScore) = sizeFactor company;
          f2 = \<lparr>factor = sizeLabel sizeType, fvalue = sizeValue, weight = sizeScore\<rparr>;
          sc2 = sc1 + sizeScore;
          (microsoftCount, microsoftScore) = microsoftFactor company;
          f3 = \<lparr>factor = ''Microsoft Stack Alignment'', fvalue = microsoftCount,
                 weight = microsoftScore\<rparr>;
          sc3 = sc2 + microsoftScore;
          distance = locationDistance env company;
          locationScore = calculateLocationScore distance;
          f4 = \<lparr>factor = ''Location (distance from London)'',
                 fvalue = (case distance of Some d \<Rightarrow> Math_round (d * 10) / 10 | None \<Rightarrow> 0),
                 weight = locationScore\<rparr>;
          sc4 = sc3 + locationScore
      in \<lparr>score = Math_round (sc4 * 100) / 100, factors = [f1, f2, f3, f4]\<rparr>)"


section \<open>matchesThesisCriteria\<close>

text \<open>
  A criterion is reported with its name and verdict. The \<^verbatim>\<open>details\<close> strings of the
  source are display text (built with \<^verbatim>\<open>toFixed\<close>, \<^verbatim>\<open>toLocaleString\<close> and
  \<^verbatim>\<open>join\<close>); they feed no verdict and are not part of the model.
\<close>

record Criterion =
  name :: string
  met :: bool

record ThesisResult =
  matches :: bool
  criteria :: "Criterion list"

definition pound :: string where
  \<comment> \<open>the pound sign, code unit \<open>0xA3\<close>\<close>
  "pound = [CHR 0xA3]"

definition isWhiteSpace :: "char \<Rightarrow> bool" where
  \<comment> \<open>what \<^verbatim>\<open>trim\<close> strips, among the code units below 256: tab, line feed,
      vertical tab, form feed, carriage return, space and the no-break space\<close>
  "isWhiteSpace c =
     (let n = (of_char c :: nat) in (9 \<le> n \<and> n \<le> 13) \<or> n = 32 \<or> n = 160)"

definition trim :: "string \<Rightarrow> string" where
  "trim s = rev (dropWhile isWhiteSpace (rev (dropWhile isWhiteSpace s)))"

definition splitSpaceFirst :: "string \<Rightarrow> string" where
  \<comment> \<open>\<^verbatim>\<open>code.split(' ')[0]\<close>\<close>
  "splitSpaceFirst code = takeWhile (\<lambda>c. c \<noteq> CHR '' '') code"

definition truthyFlag :: "bool option \<Rightarrow> bool" where
  "truthyFlag b = (case b of None \<Rightarrow> False | Some v \<Rightarrow> v)"

definition hasTargetSic :: "string list \<Rightarrow> bool" where
  "hasTargetSic sicCodes =
     list_ex (\<lambda>code.
        (let numericCode = trim (splitSpaceFirst code)
         in numericCode \<in> set TARGET_SIC_CODES
            \<or> startsWith code ''62020'' \<or> startsWith code ''62090'')) sicCodes"

definition thesisEbitda :: "Company \<Rightarrow> real" where
  \<comment> \<open>\<^verbatim>\<open>company.financials.ebitda || company.financials.profit || 0\<close>\<close>
  "thesisEbitda company = or0 (js_or (financials_ebitda company) (financials_profit company))"

definition thesisRevenue :: "Company \<Rightarrow> real" where
  "thesisRevenue company = or0 (financials_revenue company)"

definition thesisEmployees :: "Company \<Rightarrow> real" where
  "thesisEmployees company =
     or0 (js_or (financials_employees company) (enrichment_headcount company))"

definition ebitdaInRange :: "Company \<Rightarrow> bool" where
  "ebitdaInRange company = (thesisEbitda company \<ge> MIN_EBITDA \<and> thesisEbitda company \<le> MAX_EBITDA)"

definition revenueInRange :: "Company \<Rightarrow> bool" where
  "revenueInRange company =
     (thesisRevenue company \<ge> MIN_REVENUE \<and> thesisRevenue company \<le> MAX_REVENUE)"

definition employeesInRange :: "Company \<Rightarrow> bool" where
  "employeesInRange company =
     (thesisEmployees company \<ge> MIN_EMPLOYEES \<and> thesisEmployees company \<le> MAX_EMPLOYEES)"

definition sizeProfileMet :: "Company \<Rightarrow> bool" where
  "sizeProfileMet company =
     (ebitdaInRange company \<or> revenueInRange company \<or> employeesInRange company)"

definition hasAnyData :: "Company \<Rightarrow> bool" where
  "hasAnyData company =
     (thesisEbitda company > 0 \<or> thesisRevenue company > 0 \<or> thesisEmployees company > 0)"

definition hasMicrosoftStack :: "Company \<Rightarrow> bool" where
  "hasMicrosoftStack company =
     (case enrichment_tech_stack company of
        None \<Rightarrow> False
      | Some tech_stack \<Rightarrow> list_ex isMicrosoftTech tech_stack)"

definition matchesThesisCriteria :: "Env \<Rightarrow> Company \<Rightarrow> ThesisResult" where
  "matchesThesisCriteria env company =
     (let matches0 = True;
          yearsActive = calculateYearsActive (now env) (date_of_incorporation company);
          ageMet = (yearsActive \<ge> 3);
          c1 = \<lparr>name = ''Company Age (3+ years)'', met = ageMet\<rparr>;
          matches1 = (if \<not> ageMet then False else matches0);
          activeMet = (company_status company = Some ''active'');
          c2 = \<lparr>name = ''Active Status'', met = activeMet\<rparr>;
          matches2 = (if \<not> activeMet then False else matches1);
          noInsolvencyMet = (\<not> truthyFlag (has_insolvency_history company)
                             \<and> \<not> truthyFlag (has_been_liquidated company));
          c3 = \<lparr>name = ''No Insolvency History'', met = noInsolvencyMet\<rparr>;
          matches3 = (if \<not> noInsolvencyMet then False else matches2);
          targetSic = hasTargetSic (sic_codes company);
          c4 = \<lparr>name = ''SIC Code ('' @ join ''/'' TARGET_SIC_CODES @ '')'', met = targetSic\<rparr>;
          matches4 = (if \<not> targetSic then False else matches3);
          c5a = \<lparr>name = ''EBITDA Range ('' @ pound @ ''500k-'' @ pound @ ''1m)'',
                  met = (ebitdaInRange company \<or> thesisEbitda company = 0)\<rparr>;
          c5b = \<lparr>name = ''Revenue Range ('' @ pound @ ''3m-'' @ pound @ ''6m)'',
                  met = (revenueInRange company \<or> thesisRevenue company = 0)\<rparr>;
          c5c = \<lparr>name = ''Employee Range (15-40)'',
                  met = (employeesInRange company \<or> thesisEmployees company = 0)\<rparr>;
          sizeProfileMetOrNoData = (sizeProfileMet company \<or> \<not> hasAnyData company);
          c5 = \<lparr>name = ''Size Profile (EBITDA OR Revenue OR Employees)'',
                 met = sizeProfileMetOrNoData\<rparr>;
          matches5 = (if \<not> sizeProfileMet company \<and> hasAnyData company then False else matches4);
          c6 = \<lparr>name = ''Microsoft Stack (Preferred)'', met = hasMicrosoftStack company\<rparr>
      in \<lparr>matches = matches5, criteria = [c1, c2, c3, c4, c5a, c5b, c5c, c5, c6]\<rparr>)"


section \<open>analyzeMSPLikelihood\<close>

datatype Confidence = high | medium | low

record Indicator =
  category :: string
  found :: bool
  evidence :: "string list"

record MSPLikelihood =
  msp_score :: real
  confidence :: Confidence
  indicators :: "Indicator list"

definition negativeKeywords :: "string list" where
  "negativeKeywords =
     [''software development'', ''application development'', ''engineering services'',
      ''custom software'', ''software engineering'', ''digital transformation'',
      ''digital solutions'', ''digital commerce'', ''ui/ux'', ''mobility engineering'',
      ''audio visual'', ''av systems'', ''stage solutions'', ''smart building'',
      ''systems integrator'', ''master systems integrator'', ''generative ai'',
      ''gen ai'', ''ai/ml'', ''machine learning'']"

definition mspKeywords :: "string list" where
  "mspKeywords =
     [''msp'', ''managed service provider'', ''managed services'',
      ''it support'', ''it services'', ''it consultancy'', ''it consulting'',
      ''managed it'', ''managed it services'', ''managed it support'',
      ''outsourced it'', ''it outsourcing'', ''it managed services'',
      ''helpdesk'', ''service desk'', ''it help desk'',
      ''network support'', ''infrastructure support'', ''cloud services'',
      ''cybersecurity'', ''cyber security'', ''it security'',
      ''remote monitoring'', ''remote management'', ''rmm'',
      ''professional services automation'', ''psa'',
      ''endpoint management'', ''device management'']"

definition mspServices :: "string list" where
  "mspServices =
     [''managed services'', ''it support'', ''helpdesk'', ''service desk'',
      ''network management'', ''server management'', ''cloud management'',
      ''security monitoring'', ''backup'', ''disaster recovery'',
      ''remote support'', ''on-site support'', ''it consultancy'',
      ''it consulting'', ''infrastructure management'', ''endpoint management'',
      ''patch management'', ''antivirus management'', ''email security'',
      ''firewall management'', ''vpn'', ''remote access'']"

definition itInfrastructureTech :: "string list" where
  "itInfrastructureTech =
     [''microsoft 365'', ''office 365'', ''azure'', ''active directory'',
      ''windows server'', ''exchange'', ''sharepoint'', ''teams'',
      ''vmware'', ''hyper-v'', ''virtualization'', ''citrix'',
      ''cisco'', ''fortinet'', ''sonicwall'', ''palo alto'',
      ''connectwise'', ''kaseya'', ''n-able'', ''datto'',
      ''veeam'', ''acronis'', ''backup'', ''disaster recovery'',
      ''sophos'', ''symantec'', ''mcafee'', ''crowdstrike'',
      ''sentinelone'', ''bitdefender'', ''eset'']"

text \<open>
  Each of the ten regular expressions of \<^verbatim>\<open>mspDescriptionPatterns\<close> has a finite
  language; a pattern is the list of its words, and \<^verbatim>\<open>pattern.test(s)\<close> under the
  \<^verbatim>\<open>i\<close> flag is the search for one of them in the lower-cased text.
\<close>

definition mspDescriptionPatterns :: "string list list" where
  "mspDescriptionPatterns =
     [[''managed service'', ''managed it service''],
      [''it support''],
      [''helpdesk''],
      [''service desk''],
      [''remote monitoring'', ''remote management'', ''remote support''],
      [''outsourced it''],
      [''it outsourcing''],
      [''network management'', ''network support''],
      [''infrastructure management'', ''infrastructure support''],
      [''cloud services'', ''cloud management'']]"

definition pattern_test :: "string list \<Rightarrow> string \<Rightarrow> bool" where
  "pattern_test pattern s = list_ex (\<lambda>w. includes_str (toLowerCase s) w) pattern"

definition orEmpty :: "'a list option \<Rightarrow> 'a list" where
  \<comment> \<open>\<^verbatim>\<open>xs || []\<close>\<close>
  "orEmpty xs = (case xs of None \<Rightarrow> [] | Some ys \<Rightarrow> ys)"

definition allText :: "Company \<Rightarrow> string" where
  "allText company =
     toLowerCase (join '' ''
       (orEmpty (enrichment_business_keywords company)
        @ orEmpty (enrichment_services company)
        @ orEmpty (enrichment_tech_stack company)
        @ [orEmpty (enrichment_business_description company), company_name company]))"

definition foundNegativeKeywords :: "Company \<Rightarrow> string list" where
  "foundNegativeKeywords company =
     filter (\<lambda>keyword. includes_str (allText company) (toLowerCase keyword)) negativeKeywords"

definition contextPenalty :: "Company \<Rightarrow> real" where
  "contextPenalty company =
     (if length (foundNegativeKeywords company) > 0
      then max 0.3 (1 - (real (length (foundNegativeKeywords company)) * 0.2))
      else 1.0)"

definition foundMspKeywords :: "Company \<Rightarrow> string list" where
  "foundMspKeywords company =
     filter (\<lambda>keyword. includes_str (allText company) (toLowerCase keyword)) mspKeywords"

definition mspKeywordScore :: "Company \<Rightarrow> real" where
  "mspKeywordScore company =
     min 30 ((real (length (foundMspKeywords company)) / real (length mspKeywords)) * 30)
       * contextPenalty company"

definition foundServices :: "Company \<Rightarrow> string list" where
  "foundServices company =
     filter (\<lambda>service.
        list_ex (\<lambda>mspService. includes_str (toLowerCase service) (toLowerCase mspService))
          mspServices)
       (orEmpty (enrichment_services company))"

definition serviceScore :: "Company \<Rightarrow> real" where
  "serviceScore company =
     min 25 ((real (length (foundServices company))
              / real (max 1 (length (orEmpty (enrichment_services company))))) * 25)"

definition foundInfraTech :: "Company \<Rightarrow> string list" where
  "foundInfraTech company =
     filter (\<lambda>tech.
        list_ex (\<lambda>infraTech. includes_str (toLowerCase tech) (toLowerCase infraTech))
          itInfrastructureTech)
       (orEmpty (enrichment_tech_stack company))"

definition techScore :: "Company \<Rightarrow> real" where
  "techScore company =
     min 20 ((real (length (foundInfraTech company))
              / real (max 1 (length (orEmpty (enrichment_tech_stack company))))) * 20)"

definition descriptionMatches :: "Company \<Rightarrow> nat" where
  "descriptionMatches company =
     length (filter (\<lambda>pattern.
        pattern_test pattern (orEmpty (enrichment_business_description company)))
       mspDescriptionPatterns)"

definition descriptionScore :: "Company \<Rightarrow> real" where
  "descriptionScore company =
     min 15 ((real (descriptionMatches company) / real (length mspDescriptionPatterns)) * 15)"

definition isItSic :: "string \<Rightarrow> bool" where
  "isItSic code = (includes_str code ''62020'' \<or> includes_str code ''62090'')"

definition hasItSic :: "Company \<Rightarrow> bool" where
  "hasItSic company = list_ex isItSic (sic_codes company)"

definition isSpecializedMSP :: "Company \<Rightarrow> bool" where
  "isSpecializedMSP company =
     ((list_ex (\<lambda>s. includes_str (toLowerCase s) ''backup'') (foundServices company)
       \<and> \<not> list_ex (\<lambda>s. includes_str (toLowerCase s) ''it support''
                          \<or> includes_str (toLowerCase s) ''helpdesk'') (foundServices company))
      \<or> (list_ex (\<lambda>s. includes_str (toLowerCase s) ''security''
                       \<or> includes_str (toLowerCase s) ''mdr'') (foundServices company)
          \<and> \<not> list_ex (\<lambda>s. includes_str (toLowerCase s) ''infrastructure''
                             \<or> includes_str (toLowerCase s) ''network management'')
                 (foundServices company)))"

definition rawScore :: "Company \<Rightarrow> real" where
  \<comment> \<open>the local \<^verbatim>\<open>score\<close> after the five additions, before \<^verbatim>\<open>Math.round\<close>\<close>
  "rawScore company =
     0 + mspKeywordScore company + serviceScore company + techScore company
       + descriptionScore company + (if hasItSic company then 10 else 0)"

definition confidenceOf :: "Company \<Rightarrow> Confidence" where
  "confidenceOf company =
     (let hasNegativeContext = (length (foundNegativeKeywords company) > 0);
          minContextPenaltyForMedium = (if hasNegativeContext then 0.6 else 0.3 :: real)
      in if rawScore company \<ge> 30 then high
         else if rawScore company \<ge> 15 \<and> contextPenalty company \<ge> minContextPenaltyForMedium
         then medium
         else low)"

definition analyzeMSPLikelihood :: "Company \<Rightarrow> MSPLikelihood" where
  "analyzeMSPLikelihood company =
     \<lparr>msp_score = Math_round (rawScore company),
      confidence = confidenceOf company,
      indicators =
        [\<lparr>category = ''Negative Keywords (non-MSP indicators)'',
          found = (length (foundNegativeKeywords company) > 0),
          evidence = take 5 (foundNegativeKeywords company)\<rparr>,
         \<lparr>category = ''MSP Keywords'',
          found = (length (foundMspKeywords company) > 0),
          evidence = take 5 (foundMspKeywords company)\<rparr>,
         \<lparr>category = ''MSP Services'',
          found = (length (foundServices company) > 0),
          evidence = take 5 (foundServices company)\<rparr>,
         \<lparr>category = ''IT Infrastructure Technology'',
          found = (length (foundInfraTech company) > 0),
          evidence = take 5 (foundInfraTech company)\<rparr>,
         \<lparr>category = ''Business Description'',
          found = (descriptionMatches company > 0),
          evidence = (if descriptionMatches company > 0
                      then [''Contains MSP-related descriptions''] else [])\<rparr>,
         \<lparr>category = ''SIC Code (IT Services)'',
          found = hasItSic company,
          evidence = (if hasItSic company then filter isItSic (sic_codes company) else [])\<rparr>,
         \<lparr>category = ''Specialized MSP (not full-service)'',
          found = isSpecializedMSP company,
          evidence = (if isSpecializedMSP company
                      then [''Detected as specialized MSP (backup/security only)''] else [])\<rparr>]\<rparr>"


section \<open>calculateTrends\<close>

text \<open>
  A field declared \<^verbatim>\<open>z.number().nullish()\<close> is a number, \<^verbatim>\<open>null\<close> or
  \<^verbatim>\<open>undefined\<close>. A field of an optional sub-object read through \<^verbatim>\<open>?.\<close>
  (\<^verbatim>\<open>d.ratios?.ebitda_margin\<close>) is \<open>Undefined\<close> when the sub-object is missing.
  \<open>period_end\<close> holds \<^verbatim>\<open>new Date(d.period_end).getTime()\<close>.
\<close>

datatype nullish = Undefined | Null | Number real

definition truthyN :: "nullish \<Rightarrow> bool" where
  "truthyN x = (case x of Number v \<Rightarrow> v \<noteq> 0 | _ \<Rightarrow> False)"

definition numN :: "nullish \<Rightarrow> real" where
  \<comment> \<open>the numeric value in arithmetic: \<^verbatim>\<open>null\<close> converts to \<open>0\<close>; \<open>Undefined\<close> is never
      read (every read is behind a truthiness guard or the \<^verbatim>\<open>!== undefined\<close> filter)\<close>
  "numN x = (case x of Number v \<Rightarrow> v | _ \<Rightarrow> 0)"

text \<open>
  The result of an arithmetic operation need not be a finite number. A result too large for
  a double becomes \<^verbatim>\<open>Infinity\<close>: rounding to nearest overflows from
  \<open>2^1024 - 2^970\<close> on (below that bound a result is taken exact). \<^verbatim>\<open>Math.pow\<close>
  of a negative base and a non-integer exponent is \<^verbatim>\<open>NaN\<close>.
\<close>

datatype jsnum = Fin real | PosInfinity | NegInfinity | NaN

definition overflowThreshold :: real where
  "overflowThreshold = 2 ^ 1024 - 2 ^ 970"

definition toDouble :: "real \<Rightarrow> jsnum" where
  "toDouble r =
     (if r \<ge> overflowThreshold then PosInfinity
      else if r \<le> - overflowThreshold then NegInfinity
      else Fin r)"

definition js_divide :: "real \<Rightarrow> real \<Rightarrow> jsnum" where
  \<comment> \<open>\<^verbatim>\<open>a / b\<close> on two finite numbers\<close>
  "js_divide a b =
     (if b = 0 then (if a = 0 then NaN else if a > 0 then PosInfinity else NegInfinity)
      else toDouble (a / b))"

definition isOddInteger :: "real \<Rightarrow> bool" where
  "isOddInteger y = (y \<in> \<int> \<and> odd \<lfloor>y\<rfloor>)"

definition Math_pow :: "jsnum \<Rightarrow> real \<Rightarrow> jsnum" where
  "Math_pow base y =
     (if y = 0 then Fin 1
      else
        (case base of
           NaN \<Rightarrow> NaN
         | PosInfinity \<Rightarrow> (if y > 0 then PosInfinity else Fin 0)
         | NegInfinity \<Rightarrow>
             (if y > 0 then (if isOddInteger y then NegInfinity else PosInfinity) else Fin 0)
         | Fin x \<Rightarrow>
             (if x > 0 then toDouble (x powr y)
              else if x = 0 then (if y > 0 then Fin 0 else PosInfinity)
              else if y \<in> \<int> then toDouble (x powi \<lfloor>y\<rfloor>)
              else NaN)))"

definition js_minus :: "jsnum \<Rightarrow> real \<Rightarrow> jsnum" where
  "js_minus a r = (case a of Fin x \<Rightarrow> toDouble (x - r) | other \<Rightarrow> other)"

definition js_times :: "jsnum \<Rightarrow> real \<Rightarrow> jsnum" where
  "js_times a r =
     (case a of
        Fin x \<Rightarrow> toDouble (x * r)
      | PosInfinity \<Rightarrow> (if r > 0 then PosInfinity else if r < 0 then NegInfinity else NaN)
      | NegInfinity \<Rightarrow> (if r > 0 then NegInfinity else if r < 0 then PosInfinity else NaN)
      | NaN \<Rightarrow> NaN)"

definition isFinite :: "jsnum \<Rightarrow> bool" where
  "isFinite a = (case a of Fin x \<Rightarrow> True | _ \<Rightarrow> False)"

record AnnualFinancialData =
  period_end :: int
  revenue :: nullish
  profit_after_tax :: nullish
  ebitda :: nullish
  employees_average_count :: nullish
  ratios_ebitda_margin :: nullish
  revenue_breakdown_recurring_revenue_percentage :: nullish

record Trends =
  revenue_growth_1y :: "real option"
  profit_growth_1y :: "real option"
  ebitda_growth_1y :: "real option"
  employee_growth_1y :: "real option"
  revenue_trend :: "string option"
  profit_trend :: "string option"
  margin_trend :: "string option"
  revenue_growth_3y_cagr :: "jsnum option"
  profit_growth_3y_cagr :: "jsnum option"
  average_revenue_3y :: "real option"
  average_profit_3y :: "real option"
  average_ebitda_3y :: "real option"
  average_ebitda_margin_3y :: "real option"
  average_recurring_revenue_pct_3y :: "real option"

definition emptyTrends :: Trends where
  \<comment> \<open>the object \<^verbatim>\<open>{}\<close>: no field set\<close>
  "emptyTrends =
     \<lparr>revenue_growth_1y = None, profit_growth_1y = None, ebitda_growth_1y = None,
      employee_growth_1y = None, revenue_trend = None, profit_trend = None, margin_trend = None,
      revenue_growth_3y_cagr = None, profit_growth_3y_cagr = None,
      average_revenue_3y = None, average_profit_3y = None, average_ebitda_3y = None,
      average_ebitda_margin_3y = None, average_recurring_revenue_pct_3y = None\<rparr>"

definition sortByPeriodEndDesc :: "AnnualFinancialData list \<Rightarrow> AnnualFinancialData list" where
  \<comment> \<open>\<^verbatim>\<open>.sort((a, b) => time(b.period_end) - time(a.period_end))\<close>; the sort is stable\<close>
  "sortByPeriodEndDesc xs = sort_key (\<lambda>d. - period_end d) xs"

definition growth1y :: "nullish \<Rightarrow> nullish \<Rightarrow> real option" where
  \<comment> \<open>\<^verbatim>\<open>if (l && p) t = ((l - p) / p) * 100\<close>\<close>
  "growth1y l p =
     (if truthyN l \<and> truthyN p then Some (((numN l - numN p) / numN p) * 100) else None)"

definition trendDirection :: "real option \<Rightarrow> string option" where
  "trendDirection g =
     (case g of
        None \<Rightarrow> None
      | Some v \<Rightarrow> Some (if v > 5 then ''growing'' else if v < -5 then ''declining'' else ''stable''))"

definition marginTrend :: "nullish \<Rightarrow> nullish \<Rightarrow> string option" where
  "marginTrend l p =
     (if truthyN l \<and> truthyN p then
        (let marginChange = numN l - numN p
         in Some (if marginChange > 1 then ''improving''
                  else if marginChange < -1 then ''declining'' else ''stable''))
      else None)"

definition cagr3y :: "nullish \<Rightarrow> nullish \<Rightarrow> jsnum option" where
  \<comment> \<open>\<^verbatim>\<open>if (l && t) f = (Math.pow(l / t, 1 / years) - 1) * 100\<close> with \<^verbatim>\<open>years = 3\<close>\<close>
  "cagr3y l t =
     (let years = 3 :: real in
      if truthyN l \<and> truthyN t
      then Some (js_times (js_minus (Math_pow (js_divide (numN l) (numN t)) (1 / years)) 1) 100)
      else None)"

definition average :: "nullish list \<Rightarrow> real option" where
  \<comment> \<open>\<^verbatim>\<open>vs = xs.filter(v => v !== undefined); if (vs.length > 0) vs.reduce(+, 0) / vs.length\<close>\<close>
  "average xs =
     (let vs = filter (\<lambda>v. v \<noteq> Undefined) xs
      in if length vs > 0 then Some (foldl (\<lambda>a b. a + numN b) 0 vs / real (length vs)) else None)"

definition trendsOfSorted :: "AnnualFinancialData list \<Rightarrow> Trends" where
  \<comment> \<open>the body after the sort; \<open>previous\<close> and \<open>threeYearsAgo\<close> are read only under the
      length checks of the source\<close>
  "trendsOfSorted sortedData =
     (let two = (length sortedData \<ge> 2);
          three = (length sortedData \<ge> 3);
          latest = sortedData ! 0;
          previous = sortedData ! 1;
          threeYearsAgo = sortedData ! 2;
          rg = (if two then growth1y (revenue latest) (revenue previous) else None);
          pg = (if two then growth1y (profit_after_tax latest) (profit_after_tax previous)
                else None);
          last3Years = take 3 sortedData
      in \<lparr>revenue_growth_1y = rg,
          profit_growth_1y = pg,
          ebitda_growth_1y = (if two then growth1y (ebitda latest) (ebitda previous) else None),
          employee_growth_1y =
            (if two then growth1y (employees_average_count latest)
                           (employees_average_count previous) else None),
          revenue_trend = (if two then trendDirection rg else None),
          profit_trend = (if two then trendDirection pg else None),
          margin_trend =
            (if two then marginTrend (ratios_ebitda_margin latest) (ratios_ebitda_margin previous)
             else None),
          revenue_growth_3y_cagr =
            (if three then cagr3y (revenue latest) (revenue threeYearsAgo) else None),
          profit_growth_3y_cagr =
            (if three then cagr3y (profit_after_tax latest) (profit_after_tax threeYearsAgo)
             else None),
          average_revenue_3y = average (map revenue last3Years),
          average_profit_3y = average (map profit_after_tax last3Years),
          average_ebitda_3y = average (map ebitda last3Years),
          average_ebitda_margin_3y = average (map ratios_ebitda_margin last3Years),
          average_recurring_revenue_pct_3y =
            average (map revenue_breakdown_recurring_revenue_percentage last3Years)\<rparr>)"

definition calculateTrends :: "AnnualFinancialData list \<Rightarrow> Trends" where
  "calculateTrends annualData =
     (if length annualData < 1 then emptyTrends
      else trendsOfSorted (sortByPeriodEndDesc annualData))"

section \<open>The four computations on a heap\<close>

text \<open>
  To follow what each function writes, and where, the four functions are given a second
  time as operations on a heap. A heap is the list of its cells and a reference is an index
  into it. The company record, with everything reachable from it, is one cell; so is an array
  of annual records, and so is each array that a function creates (\<^verbatim>\<open>factors\<close>,
  \<^verbatim>\<open>criteria\<close>, \<^verbatim>\<open>indicators\<close>, the copy made by \<^verbatim>\<open>[...annualData]\<close>).
  \<^verbatim>\<open>push\<close> and \<^verbatim>\<open>sort\<close> overwrite the array they are called on. A function
  answers \<open>None\<close> when its argument does not refer to a cell of the expected kind, which the
  types of the source exclude. The returned object holds the created array; the result below
  is its content, so that equality of results is deep equality.
\<close>

datatype cell =
    CompanyCell Company
  | AnnualDataArray "AnnualFinancialData list"
  | FactorArray "ScoreFactor list"
  | CriterionArray "Criterion list"
  | IndicatorArray "Indicator list"

type_synonym heap = "cell list"

definition deref :: "heap \<Rightarrow> nat \<Rightarrow> cell option" where
  "deref h r = (if r < length h then Some (h ! r) else None)"

definition alloc :: "cell \<Rightarrow> heap \<Rightarrow> nat \<times> heap" where
  \<comment> \<open>a new array or object: the next free reference, and the heap extended by the cell\<close>
  "alloc v h = (length h, h @ [v])"

definition pushFactor :: "nat \<Rightarrow> ScoreFactor \<Rightarrow> heap \<Rightarrow> heap" where
  "pushFactor r x h =
     (case deref h r of Some (FactorArray xs) \<Rightarrow> h[r := FactorArray (xs @ [x])] | _ \<Rightarrow> h)"

definition readFactors :: "heap \<Rightarrow> nat \<Rightarrow> ScoreFactor list" where
  "readFactors h r = (case deref h r of Some (FactorArray xs) \<Rightarrow> xs | _ \<Rightarrow> [])"

definition pushCriterion :: "nat \<Rightarrow> Criterion \<Rightarrow> heap \<Rightarrow> heap" where
  "pushCriterion r x h =
     (case deref h r of Some (CriterionArray xs) \<Rightarrow> h[r := CriterionArray (xs @ [x])] | _ \<Rightarrow> h)"

definition readCriteria :: "heap \<Rightarrow> nat \<Rightarrow> Criterion list" where
  "readCriteria h r = (case deref h r of Some (CriterionArray xs) \<Rightarrow> xs | _ \<Rightarrow> [])"

definition pushIndicator :: "nat \<Rightarrow> Indicator \<Rightarrow> heap \<Rightarrow> heap" where
  "pushIndicator r x h =
     (case deref h r of Some (IndicatorArray xs) \<Rightarrow> h[r := IndicatorArray (xs @ [x])] | _ \<Rightarrow> h)"

definition readIndicators :: "heap \<Rightarrow> nat \<Rightarrow> Indicator list" where
  "readIndicators h r = (case deref h r of Some (IndicatorArray xs) \<Rightarrow> xs | _ \<Rightarrow> [])"

definition readAnnualData :: "heap \<Rightarrow> nat \<Rightarrow> AnnualFinancialData list" where
  "readAnnualData h r = (case deref h r of Some (AnnualDataArray xs) \<Rightarrow> xs | _ \<Rightarrow> [])"

definition spreadCopy :: "nat \<Rightarrow> heap \<Rightarrow> nat \<times> heap" where
  \<comment> \<open>\<^verbatim>\<open>[...a]\<close>: a new array with the elements of the array at \<open>a\<close>\<close>
  "spreadCopy a h = alloc (AnnualDataArray (readAnnualData h a)) h"

definition sortInPlace :: "nat \<Rightarrow> heap \<Rightarrow> heap" where
  \<comment> \<open>\<^verbatim>\<open>Array.prototype.sort\<close> reorders the array it is called on\<close>
  "sortInPlace a h =
     (case deref h a of
        Some (AnnualDataArray xs) \<Rightarrow> h[a := AnnualDataArray (sortByPeriodEndDesc xs)]
      | _ \<Rightarrow> h)"

definition calculateInvestmentScore_heap ::
    "Env \<Rightarrow> nat \<Rightarrow> heap \<Rightarrow> (InvestmentScore \<times> heap) option" where
  "calculateInvestmentScore_heap env companyRef h =
     (case deref h companyRef of
        Some (CompanyCell company) \<Rightarrow>
          (let (factorsRef, h0) = alloc (FactorArray []) h;
               yearsActive = calculateYearsActive (now env) (date_of_incorporation company);
               ageS = ageScore yearsActive;
               h1 = pushFactor factorsRef
                      \<lparr>factor = ''Company Age (years)'', fvalue = yearsActive, weight = ageS\<rparr> h0;
               sc1 = 0 + ageS;
               (sizeType, sizeValue, sizeScore) = sizeFactor company;
               h2 = pushFactor factorsRef
                      \<lparr>factor = sizeLabel sizeType, fvalue = sizeValue, weight = sizeScore\<rparr> h1;
               sc2 = sc1 + sizeScore;
               (microsoftCount, microsoftScore) = microsoftFactor company;
               h3 = pushFactor factorsRef
                      \<lparr>factor = ''Microsoft Stack Alignment'', fvalue = microsoftCount,
                       weight = microsoftScore\<rparr> h2;
               sc3 = sc2 + microsoftScore;
               distance = locationDistance env company;
               locationScore = calculateLocationScore distance;
               h4 = pushFactor factorsRef
                      \<lparr>factor = ''Location (distance from London)'',
                       fvalue = (case distance of Some d \<Rightarrow> Math_round (d * 10) / 10 | None \<Rightarrow> 0),
                       weight = locationScore\<rparr> h3;
               sc4 = sc3 + locationScore
           in Some (\<lparr>score = Math_round (sc4 * 100) / 100, factors = readFactors h4 factorsRef\<rparr>,
                    h4))
      | _ \<Rightarrow> None)"

definition matchesThesisCriteria_heap ::
    "Env \<Rightarrow> nat \<Rightarrow> heap \<Rightarrow> (ThesisResult \<times> heap) option" where
  "matchesThesisCriteria_heap env companyRef h =
     (case deref h companyRef of
        Some (CompanyCell company) \<Rightarrow>
          (let (criteriaRef, h0) = alloc (CriterionArray []) h;
               matches0 = True;
               yearsActive = calculateYearsActive (now env) (date_of_incorporation company);
               ageMet = (yearsActive \<ge> 3);
               h1 = pushCriterion criteriaRef
                      \<lparr>name = ''Company Age (3+ years)'', met = ageMet\<rparr> h0;
               matches1 = (if \<not> ageMet then False else matches0);
               activeMet = (company_status company = Some ''active'');
               h2 = pushCriterion criteriaRef \<lparr>name = ''Active Status'', met = activeMet\<rparr> h1;
               matches2 = (if \<not> activeMet then False else matches1);
               noInsolvencyMet = (\<not> truthyFlag (has_insolvency_history company)
                                  \<and> \<not> truthyFlag (has_been_liquidated company));
               h3 = pushCriterion criteriaRef
                      \<lparr>name = ''No Insolvency History'', met = noInsolvencyMet\<rparr> h2;
               matches3 = (if \<not> noInsolvencyMet then False else matches2);
               targetSic = hasTargetSic (sic_codes company);
               h4 = pushCriterion criteriaRef
                      \<lparr>name = ''SIC Code ('' @ join ''/'' TARGET_SIC_CODES @ '')'',
                       met = targetSic\<rparr> h3;
               matches4 = (if \<not> targetSic then False else matches3);
               h5 = pushCriterion criteriaRef
                      \<lparr>name = ''EBITDA Range ('' @ pound @ ''500k-'' @ pound @ ''1m)'',
                       met = (ebitdaInRange company \<or> thesisEbitda company = 0)\<rparr> h4;
               h6 = pushCriterion criteriaRef
                      \<lparr>name = ''Revenue Range ('' @ pound @ ''3m-'' @ pound @ ''6m)'',
                       met = (revenueInRange company \<or> thesisRevenue company = 0)\<rparr> h5;
               h7 = pushCriterion criteriaRef
                      \<lparr>name = ''Employee Range (15-40)'',
                       met = (employeesInRange company \<or> thesisEmployees company = 0)\<rparr> h6;
               sizeProfileMetOrNoData = (sizeProfileMet company \<or> \<not> hasAnyData company);
               h8 = pushCriterion criteriaRef
                      \<lparr>name = ''Size Profile (EBITDA OR Revenue OR Employees)'',
                       met = sizeProfileMetOrNoData\<rparr> h7;
               matches5 = (if \<not> sizeProfileMet company \<and> hasAnyData company then False
                           else matches4);
               h9 = pushCriterion criteriaRef
                      \<lparr>name = ''Microsoft Stack (Preferred)'', met = hasMicrosoftStack company\<rparr>
                      h8
           in Some (\<lparr>matches = matches5, criteria = readCriteria h9 criteriaRef\<rparr>, h9))
      | _ \<Rightarrow> None)"

definition analyzeMSPLikelihood_heap ::
    "nat \<Rightarrow> heap \<Rightarrow> (MSPLikelihood \<times> heap) option" where
  "analyzeMSPLikelihood_heap companyRef h =
     (case deref h companyRef of
        Some (CompanyCell company) \<Rightarrow>
          (let (indicatorsRef, h0) = alloc (IndicatorArray []) h;
               h1 = pushIndicator indicatorsRef
                      \<lparr>category = ''Negative Keywords (non-MSP indicators)'',
                       found = (length (foundNegativeKeywords company) > 0),
                       evidence = take 5 (foundNegativeKeywords company)\<rparr> h0;
               h2 = pushIndicator indicatorsRef
                      \<lparr>category = ''MSP Keywords'',
                       found = (length (foundMspKeywords company) > 0),
                       evidence = take 5 (foundMspKeywords company)\<rparr> h1;
               h3 = pushIndicator indicatorsRef
                      \<lparr>category = ''MSP Services'',
                       found = (length (foundServices company) > 0),
                       evidence = take 5 (foundServices company)\<rparr> h2;
               h4 = pushIndicator indicatorsRef
                      \<lparr>category = ''IT Infrastructure Technology'',
                       found = (length (foundInfraTech company) > 0),
                       evidence = take 5 (foundInfraTech company)\<rparr> h3;
               h5 = pushIndicator indicatorsRef
                      \<lparr>category = ''Business Description'',
                       found = (descriptionMatches company > 0),
                       evidence = (if descriptionMatches company > 0
                                   then [''Contains MSP-related descriptions''] else [])\<rparr> h4;
               h6 = pushIndicator indicatorsRef
                      \<lparr>category = ''SIC Code (IT Services)'',
                       found = hasItSic company,
                       evidence = (if hasItSic company then filter isItSic (sic_codes company)
                                   else [])\<rparr> h5;
               h7 = pushIndicator indicatorsRef
                      \<lparr>category = ''Specialized MSP (not full-service)'',
                       found = isSpecializedMSP company,
                       evidence = (if isSpecializedMSP company
                                   then [''Detected as specialized MSP (backup/security only)'']
                                   else [])\<rparr> h6
           in Some (\<lparr>msp_score = Math_round (rawScore company),
                     confidence = confidenceOf company,
                     indicators = readIndicators h7 indicatorsRef\<rparr>, h7))
      | _ \<Rightarrow> None)"

definition calculateTrends_heap :: "nat \<Rightarrow> heap \<Rightarrow> (Trends \<times> heap) option" where
  "calculateTrends_heap annualDataRef h =
     (case deref h annualDataRef of
        Some (AnnualDataArray annualData) \<Rightarrow>
          (if length annualData < 1 then Some (emptyTrends, h)
           else
             (let (sortedRef, h0) = spreadCopy annualDataRef h;
                  h1 = sortInPlace sortedRef h0
              in Some (trendsOfSorted (readAnnualData h1 sortedRef), h1)))
      | _ \<Rightarrow> None)"

definition callTwice ::
    "(heap \<Rightarrow> ('r \<times> heap) option) \<Rightarrow> (heap \<Rightarrow> ('r \<times> heap) option) \<Rightarrow> heap
       \<Rightarrow> ('r \<times> 'r \<times> heap) option" where
  \<comment> \<open>a first call, then a second call on the heap that the first one left\<close>
  "callTwice f g h =
     (case f h of
        None \<Rightarrow> None
      | Some (r1, h1) \<Rightarrow>
          (case g h1 of None \<Rightarrow> None | Some (r2, h2) \<Rightarrow> Some (r1, r2, h2)))"

definition finalHeap :: "('r \<times> 'r \<times> heap) option \<Rightarrow> heap option" where
  \<comment> \<open>the heap that the second call of \<open>callTwice\<close> leaves\<close>
  "finalHeap x = (case x of None \<Rightarrow> None | Some (r1, r2, h2) \<Rightarrow> Some h2)"

definition sameResults :: "('r \<times> 'r \<times> heap) option \<Rightarrow> bool option" where
  \<comment> \<open>whether the two results of \<open>callTwice\<close> are equal\<close>
  "sameResults x = (case x of None \<Rightarrow> None | Some (r1, r2, h2) \<Rightarrow> Some (r1 = r2))"

section \<open>Example inputs\<close>

definition blankCompany :: Company where
  "blankCompany =
     \<lparr>company_name = ''Acme Ltd'', company_status = Some ''active'',
      date_of_incorporation = 0, registered_address = None,
      registered_address_structured = None, sic_codes = [],
      has_been_liquidated = None, has_insolvency_history = None,
      financials_revenue = None, financials_profit = None, financials_ebitda = None,
      financials_employees = None, enrichment_headcount = None, enrichment_tech_stack = None,
      enrichment_business_keywords = None, enrichment_services = None,
      enrichment_business_description = None, investment_score_location_distance_km = None\<rparr>"

definition envAt :: "int \<Rightarrow> Env" where
  "envAt years = \<lparr>now = years * 31536000000, getDistanceFromLondon = (\<lambda>address structured. None)\<rparr>"

definition sizeExampleBand :: Company where
  "sizeExampleBand =
     blankCompany\<lparr>financials_employees := Some 20, financials_revenue := Some 10000000,
                    financials_ebitda := Some 50000\<rparr>"

definition sizeExamplePartial :: Company where
  "sizeExamplePartial =
     blankCompany\<lparr>financials_employees := Some 100, financials_revenue := Some 1500000,
                    financials_ebitda := Some 400000\<rparr>"

definition sizeExampleNegative :: Company where
  "sizeExampleNegative =
     blankCompany\<lparr>financials_employees := Some (-5), financials_revenue := Some 1500000\<rparr>"

definition futureCompany :: Company where
  "futureCompany = blankCompany\<lparr>date_of_incorporation := 31536000000\<rparr>"

section \<open>Notions used to state the properties of the size factor\<close>

definition reportedSize :: "Env \<Rightarrow> Company \<Rightarrow> ScoreFactor" where
  "reportedSize env company = factors (calculateInvestmentScore env company) ! 1"

definition headcountOf :: "Company \<Rightarrow> real option" where
  "headcountOf company = js_or (financials_employees company) (enrichment_headcount company)"

definition inBand :: "real option \<Rightarrow> real \<Rightarrow> real \<Rightarrow> bool" where
  "inBand v mn mx = (truthy v \<and> mn \<le> or0 v \<and> or0 v \<le> mx)"

definition noBand :: "Company \<Rightarrow> bool" where
  "noBand company =
     (\<not> inBand (headcountOf company) MIN_EMPLOYEES MAX_EMPLOYEES
      \<and> \<not> inBand (financials_revenue company) MIN_REVENUE MAX_REVENUE
      \<and> \<not> inBand (financials_ebitda company) MIN_EBITDA MAX_EBITDA)"

text \<open>
  The partial credit of one dimension as the source computes it (zero for an absent or zero
  value), and as the specification words it, without the clamp at zero below the minimum.
\<close>

definition partialCredit :: "real option \<Rightarrow> real \<Rightarrow> real \<Rightarrow> real" where
  "partialCredit v mn mx =
     (if truthy v then
        (if or0 v < mn then max 0 ((or0 v / mn) * 15)
         else if or0 v > mx then max 0 (15 - ((or0 v - mx) / mx) * 15)
         else 0)
      else 0)"

definition partialCredit_claimed :: "real option \<Rightarrow> real \<Rightarrow> real \<Rightarrow> real" where
  "partialCredit_claimed v mn mx =
     (if truthy v then
        (if or0 v < mn then (or0 v / mn) * 15
         else if or0 v > mx then max 0 (15 - ((or0 v - mx) / mx) * 15)
         else 0)
      else 0)"


text \<open>
  The scorer gives full credit for size when the size weight is 25; partial credit never
  exceeds 15.
\<close>

definition scorerFullCredit :: "Company \<Rightarrow> bool" where
  "scorerFullCredit company = (snd (snd (sizeFactor company)) = 25)"

definition thesisExample :: Company where
  "thesisExample =
     blankCompany\<lparr>sic_codes := [''62020 - Information technology consultancy activities''],
                    financials_employees := Some 20\<rparr>"

definition profitOnlyCompany :: Company where
  "profitOnlyCompany = blankCompany\<lparr>financials_profit := Some 700000\<rparr>"

definition twoYearOld :: Company where
  "twoYearOld = thesisExample\<lparr>date_of_incorporation := 3 * 31536000000\<rparr>"

definition negativeContextExample :: Company where
  "negativeContextExample =
     blankCompany\<lparr>enrichment_business_keywords :=
        Some [''Software Development'', ''digital transformation'', ''machine learning'',
              ''generative AI'', ''managed services'', ''IT support'', ''helpdesk'']\<rparr>"

definition sicOnlyCompany :: Company where
  "sicOnlyCompany = blankCompany\<lparr>sic_codes := [''62020'']\<rparr>"

text \<open>Three yearly records, given oldest first, with revenue 100, 110, 121.\<close>

definition year :: "int \<Rightarrow> nullish \<Rightarrow> nullish \<Rightarrow> AnnualFinancialData" where
  "year pe r p =
     \<lparr>period_end = pe, revenue = r, profit_after_tax = p, ebitda = Undefined,
      employees_average_count = Undefined, ratios_ebitda_margin = Undefined,
      revenue_breakdown_recurring_revenue_percentage = Undefined\<rparr>"

definition lossYears :: "AnnualFinancialData list" where
  \<comment> \<open>oldest first: losses of 1 and 4, then a loss of 8 in the latest year\<close>
  "lossYears = [year 1 (Number 100) (Number (- 1)), year 2 (Number 110) (Number (- 4)),
                year 3 (Number 121) (Number (- 8))]"

definition recoveryYears :: "AnnualFinancialData list" where
  \<comment> \<open>oldest first: a loss of 50, then profits\<close>
  "recoveryYears = [year 1 (Number 100) (Number (- 50)), year 2 (Number 110) (Number 20),
                    year 3 (Number 121) (Number 100)]"

definition hugeRevenue :: real where
  \<comment> \<open>a double, about \<open>9e307\<close>\<close>
  "hugeRevenue = 2 ^ 1023"

definition overflowYears :: "AnnualFinancialData list" where
  \<comment> \<open>oldest first: revenue one half, then one, then \<open>hugeRevenue\<close>\<close>
  "overflowYears = [year 1 (Number (1 / 2)) Undefined, year 2 (Number 1) Undefined,
                    year 3 (Number hugeRevenue) Undefined]"

definition cachedCompany :: Company where
  "cachedCompany = blankCompany\<lparr>investment_score_location_distance_km := Some 10\<rparr>"

definition envOtherResolver :: Env where
  \<comment> \<open>the clock of \<open>envAt 1\<close>, with a resolver that answers 500 km\<close>
  "envOtherResolver =
     \<lparr>now = 31536000000, getDistanceFromLondon = (\<lambda>address structured. Some 500)\<rparr>"

definition addressedCompany :: Company where
  \<comment> \<open>an address, and no distance cached\<close>
  "addressedCompany = blankCompany\<lparr>registered_address := Some ''1 High Street, Leeds''\<rparr>"

definition exampleHeap :: heap where
  "exampleHeap = [CompanyCell cachedCompany, AnnualDataArray lossYears]"

definition lossCompany :: Company where
  "lossCompany = blankCompany\<lparr>financials_ebitda := Some (- 100000)\<rparr>"

definition envLater :: Env where
  \<comment> \<open>one millisecond after \<open>envAt 1\<close>\<close>
  "envLater = \<lparr>now = 31536000001, getDistanceFromLondon = (\<lambda>address structured. None)\<rparr>"

section \<open>Properties of calculateInvestmentScore\<close>

subsection \<open>Bounds of the four factors and the total\<close>

lemma ageScore_le: "ageScore y \<le> 25"
  by (simp add: ageScore_def)

lemma ageScore_ge: "0 \<le> y \<Longrightarrow> 0 \<le> ageScore y"
  by (simp add: ageScore_def)

lemma ageScore_mono: "x \<le> y \<Longrightarrow> ageScore x \<le> ageScore y"
  by (simp add: ageScore_def min_def)

lemma ageScore_full_iff: "ageScore y = 25 \<longleftrightarrow> 2500 / 833 \<le> y"
  by (auto simp add: ageScore_def min_def)

lemma partial_low_le: "0 < mn \<Longrightarrow> v < mn \<Longrightarrow> max 0 ((v / mn) * 15) \<le> (15::real)"
proof -
  assume a: "0 < mn" "v < mn"
  then have "(v / mn) * 15 < 1 * 15" by (intro mult_strict_right_mono) simp_all
  then show ?thesis by linarith
qed

lemma partial_high_le: "0 < mx \<Longrightarrow> mx < v \<Longrightarrow> max 0 (15 - ((v - mx) / mx) * 15) \<le> (15::real)"
proof -
  assume a: "0 < mx" "mx < v"
  then have "0 < ((v - mx) / mx) * 15" by simp
  then show ?thesis by linarith
qed

lemma sizePartialEmployees_bounds:
  "0 \<le> snd (snd st) \<and> snd (snd st) \<le> 15 \<Longrightarrow>
   0 \<le> snd (snd (sizePartialEmployees h st)) \<and> snd (snd (sizePartialEmployees h st)) \<le> 15"
  using partial_low_le[of MIN_EMPLOYEES "or0 h"] partial_high_le[of MAX_EMPLOYEES "or0 h"]
  by (simp add: sizePartialEmployees_def MIN_EMPLOYEES_def MAX_EMPLOYEES_def)

lemma sizePartialRevenue_bounds:
  "0 \<le> snd (snd st) \<and> snd (snd st) \<le> 15 \<Longrightarrow>
   0 \<le> snd (snd (sizePartialRevenue h st)) \<and> snd (snd (sizePartialRevenue h st)) \<le> 15"
  using partial_low_le[of MIN_REVENUE "or0 h"] partial_high_le[of MAX_REVENUE "or0 h"]
  by (simp add: sizePartialRevenue_def MIN_REVENUE_def MAX_REVENUE_def)

lemma sizePartialEbitda_bounds:
  "0 \<le> snd (snd st) \<and> snd (snd st) \<le> 15 \<Longrightarrow>
   0 \<le> snd (snd (sizePartialEbitda h st)) \<and> snd (snd (sizePartialEbitda h st)) \<le> 15"
  using partial_low_le[of MIN_EBITDA "or0 h"] partial_high_le[of MAX_EBITDA "or0 h"]
  by (simp add: sizePartialEbitda_def MIN_EBITDA_def MAX_EBITDA_def)

lemma sizePartial_all_bounds:
  "0 \<le> snd (snd (sizePartialEbitda e (sizePartialRevenue r
            (sizePartialEmployees h (''none'', 0, 0)))))
   \<and> snd (snd (sizePartialEbitda e (sizePartialRevenue r
            (sizePartialEmployees h (''none'', 0, 0))))) \<le> 15"
  by (intro sizePartialEbitda_bounds sizePartialRevenue_bounds sizePartialEmployees_bounds) simp

lemma sizeScore_bounds: "0 \<le> snd (snd (sizeFactor c)) \<and> snd (snd (sizeFactor c)) \<le> 25"
proof -
  let ?p = "snd (snd (sizePartialEbitda (financials_ebitda c)
              (sizePartialRevenue (financials_revenue c)
                 (sizePartialEmployees
                    (js_or (financials_employees c) (enrichment_headcount c)) (''none'', 0, 0)))))"
  have "0 \<le> ?p \<and> ?p \<le> 15" by (rule sizePartial_all_bounds)
  then have "0 \<le> ?p \<and> ?p \<le> 25" by simp
  then show ?thesis
    unfolding sizeFactor_def Let_def by simp
qed

lemma microsoftScore_bounds: "0 \<le> snd (microsoftFactor c) \<and> snd (microsoftFactor c) \<le> 25"
  by (auto simp add: microsoftFactor_def Let_def split: option.splits)

lemma locationScore_bounds: "0 \<le> calculateLocationScore d \<and> calculateLocationScore d \<le> 25"
  by (auto simp add: calculateLocationScore_def split: option.splits)

lemma round2_le: "x \<le> 100 \<Longrightarrow> Math_round (x * 100) / 100 \<le> 100"
  unfolding Math_round_def by (simp add: floor_le_iff le_divide_eq)

lemma round2_ge: "0 \<le> x \<Longrightarrow> 0 \<le> Math_round (x * 100) / 100"
  unfolding Math_round_def by simp

lemma score_rounded_sum:
  "score (calculateInvestmentScore env c) =
     Math_round (sum_list (map weight (factors (calculateInvestmentScore env c))) * 100) / 100"
  by (simp add: calculateInvestmentScore_def Let_def add.assoc split: prod.splits)

lemma factor_weights:
  "map weight (factors (calculateInvestmentScore env c)) =
     [ageScore (calculateYearsActive (now env) (date_of_incorporation c)),
      snd (snd (sizeFactor c)), snd (microsoftFactor c),
      calculateLocationScore (locationDistance env c)]"
  by (simp add: calculateInvestmentScore_def Let_def split: prod.splits)

lemma score_le_100: "score (calculateInvestmentScore env c) \<le> 100"
proof -
  have "sum_list (map weight (factors (calculateInvestmentScore env c))) \<le> 100"
    unfolding factor_weights
    using ageScore_le[of "calculateYearsActive (now env) (date_of_incorporation c)"]
      sizeScore_bounds[of c] microsoftScore_bounds[of c]
      locationScore_bounds[of "locationDistance env c"]
    by simp
  then show ?thesis unfolding score_rounded_sum by (rule round2_le)
qed

lemma score_ge_0:
  assumes "date_of_incorporation c \<le> now env"
  shows "0 \<le> score (calculateInvestmentScore env c)"
proof -
  have "0 \<le> calculateYearsActive (now env) (date_of_incorporation c)"
    using assms by (simp add: calculateYearsActive_def MILLISECONDS_PER_YEAR_def)
  then have "0 \<le> sum_list (map weight (factors (calculateInvestmentScore env c)))"
    unfolding factor_weights
    using ageScore_ge[of "calculateYearsActive (now env) (date_of_incorporation c)"]
      sizeScore_bounds[of c] microsoftScore_bounds[of c]
      locationScore_bounds[of "locationDistance env c"]
    by simp
  then show ?thesis unfolding score_rounded_sum by (rule round2_ge)
qed

lemmas band_consts = MIN_EMPLOYEES_def MAX_EMPLOYEES_def MIN_REVENUE_def MAX_REVENUE_def
  MIN_EBITDA_def MAX_EBITDA_def

lemmas example_defs = blankCompany_def sizeExampleBand_def sizeExamplePartial_def
  sizeExampleNegative_def futureCompany_def envAt_def

text \<open>
  C1. The total is the rounded sum of the four reported weights and never exceeds 100
  (\<open>score_rounded_sum\<close>, \<open>score_le_100\<close>), and it is non-negative when the company was
  not incorporated after the current time (\<open>score_ge_0\<close>). The age factor has no lower
  clamp, though: for a company whose incorporation date lies one year ahead of the clock, with
  no size, technology or location data, the age weight and the total are \<open>-8.33\<close>, outside
  \<open>[0, 100]\<close>.
\<close>

theorem negative_age_score:
  "calculateYearsActive (now (envAt 0)) (date_of_incorporation futureCompany) = - 1
   \<and> score (calculateInvestmentScore (envAt 0) futureCompany) = - (833 / 100)"
  by (simp add: example_defs calculateInvestmentScore_def calculateYearsActive_def
      MILLISECONDS_PER_YEAR_def ageScore_def sizeFactor_def js_or_def truthy_def
      sizePartialEbitda_def sizePartialRevenue_def sizePartialEmployees_def
      microsoftFactor_def locationDistance_def calculateLocationScore_def Math_round_def Let_def)

text \<open>
  C2. The age factor is non-decreasing in the years active (\<open>ageScore_mono\<close>), but with the
  multiplier \<open>8.33\<close> it is \<open>24.99\<close> at exactly three years; the full 25 points are reached
  from \<open>2500/833\<close> years on (\<open>ageScore_full_iff\<close>), a little more than three.
\<close>

theorem age_score_at_three_years:
  "calculateYearsActive (now (envAt 3)) (date_of_incorporation blankCompany) = 3
   \<and> weight (factors (calculateInvestmentScore (envAt 3) blankCompany) ! 0) = 2499 / 100
   \<and> ageScore 3 < 25"
  by (simp add: example_defs calculateInvestmentScore_def calculateYearsActive_def
      MILLISECONDS_PER_YEAR_def ageScore_def Let_def split: prod.splits)

subsection \<open>The size factor\<close>

lemma reportedSize_eq:
  "reportedSize env c =
     \<lparr>factor = sizeLabel (fst (sizeFactor c)), fvalue = fst (snd (sizeFactor c)),
      weight = snd (snd (sizeFactor c))\<rparr>"
  by (simp add: reportedSize_def calculateInvestmentScore_def Let_def split: prod.splits)

lemma sizeFactor_employees_band:
  "inBand (headcountOf c) MIN_EMPLOYEES MAX_EMPLOYEES \<Longrightarrow>
   sizeFactor c = (''employees'', or0 (headcountOf c), 25)"
  by (simp add: sizeFactor_def inBand_def headcountOf_def Let_def)

lemma sizeFactor_revenue_band:
  "\<not> inBand (headcountOf c) MIN_EMPLOYEES MAX_EMPLOYEES \<Longrightarrow>
   inBand (financials_revenue c) MIN_REVENUE MAX_REVENUE \<Longrightarrow>
   sizeFactor c = (''revenue'', or0 (financials_revenue c), 25)"
  by (simp add: sizeFactor_def inBand_def headcountOf_def Let_def)

lemma sizeFactor_ebitda_band:
  "\<not> inBand (headcountOf c) MIN_EMPLOYEES MAX_EMPLOYEES \<Longrightarrow>
   \<not> inBand (financials_revenue c) MIN_REVENUE MAX_REVENUE \<Longrightarrow>
   inBand (financials_ebitda c) MIN_EBITDA MAX_EBITDA \<Longrightarrow>
   sizeFactor c = (''ebitda'', or0 (financials_ebitda c), 25)"
  by (simp add: sizeFactor_def inBand_def headcountOf_def Let_def)

lemma sizeFactor_noBand:
  "noBand c \<Longrightarrow>
   sizeFactor c =
     sizePartialEbitda (financials_ebitda c)
       (sizePartialRevenue (financials_revenue c)
          (sizePartialEmployees (headcountOf c) (''none'', 0, 0)))"
  unfolding sizeFactor_def noBand_def inBand_def headcountOf_def Let_def
  by (simp only: if_not_P if_False)

lemma sizePartialEmployees_eq:
  "\<not> inBand h MIN_EMPLOYEES MAX_EMPLOYEES \<Longrightarrow>
   snd (snd (sizePartialEmployees h (''none'', 0, 0))) = partialCredit h MIN_EMPLOYEES MAX_EMPLOYEES
   \<and> (partialCredit h MIN_EMPLOYEES MAX_EMPLOYEES \<noteq> 0 \<longrightarrow>
        sizePartialEmployees h (''none'', 0, 0)
          = (''employees'', or0 h, partialCredit h MIN_EMPLOYEES MAX_EMPLOYEES))"
  by (auto simp add: sizePartialEmployees_def partialCredit_def inBand_def)

lemma sizePartialRevenue_eq:
  "\<not> inBand r MIN_REVENUE MAX_REVENUE \<Longrightarrow>
   sizePartialRevenue r st =
     (if snd (snd st) \<noteq> 0 then st
      else if truthy r then (''revenue'', or0 r, partialCredit r MIN_REVENUE MAX_REVENUE)
      else st)"
  by (auto simp add: sizePartialRevenue_def partialCredit_def inBand_def)

lemma sizePartialEbitda_eq:
  "\<not> inBand r MIN_EBITDA MAX_EBITDA \<Longrightarrow>
   sizePartialEbitda r st =
     (if snd (snd st) \<noteq> 0 then st
      else if truthy r then (''ebitda'', or0 r, partialCredit r MIN_EBITDA MAX_EBITDA)
      else st)"
  by (auto simp add: sizePartialEbitda_def partialCredit_def inBand_def)

lemma partialCredit_falsy: "\<not> truthy v \<Longrightarrow> partialCredit v mn mx = 0"
  by (simp add: partialCredit_def)

lemma sizeFactor_partial_employees:
  assumes "noBand c" "partialCredit (headcountOf c) MIN_EMPLOYEES MAX_EMPLOYEES \<noteq> 0"
  shows "sizeFactor c = (''employees'', or0 (headcountOf c),
           partialCredit (headcountOf c) MIN_EMPLOYEES MAX_EMPLOYEES)"
proof -
  from assms(1) have nb: "\<not> inBand (headcountOf c) MIN_EMPLOYEES MAX_EMPLOYEES"
    "\<not> inBand (financials_revenue c) MIN_REVENUE MAX_REVENUE"
    "\<not> inBand (financials_ebitda c) MIN_EBITDA MAX_EBITDA"
    by (simp_all add: noBand_def)
  from sizePartialEmployees_eq[OF nb(1)] assms(2)
  have e: "sizePartialEmployees (headcountOf c) (''none'', 0, 0)
          = (''employees'', or0 (headcountOf c), partialCredit (headcountOf c) MIN_EMPLOYEES MAX_EMPLOYEES)"
    by simp
  show ?thesis
    unfolding sizeFactor_noBand[OF assms(1)] e sizePartialRevenue_eq[OF nb(2)] sizePartialEbitda_eq[OF nb(3)]
    using assms(2) by simp
qed

lemma sizeFactor_partial_revenue:
  assumes "noBand c" "partialCredit (headcountOf c) MIN_EMPLOYEES MAX_EMPLOYEES = 0"
    "partialCredit (financials_revenue c) MIN_REVENUE MAX_REVENUE \<noteq> 0"
  shows "sizeFactor c = (''revenue'', or0 (financials_revenue c),
           partialCredit (financials_revenue c) MIN_REVENUE MAX_REVENUE)"
proof -
  from assms(1) have nb: "\<not> inBand (headcountOf c) MIN_EMPLOYEES MAX_EMPLOYEES"
    "\<not> inBand (financials_revenue c) MIN_REVENUE MAX_REVENUE"
    "\<not> inBand (financials_ebitda c) MIN_EBITDA MAX_EBITDA"
    by (simp_all add: noBand_def)
  from sizePartialEmployees_eq[OF nb(1)] assms(2)
  have e: "snd (snd (sizePartialEmployees (headcountOf c) (''none'', 0, 0))) = 0"
    by simp
  from assms(3) have t: "truthy (financials_revenue c)"
    using partialCredit_falsy by blast
  show ?thesis
    unfolding sizeFactor_noBand[OF assms(1)] sizePartialRevenue_eq[OF nb(2)] sizePartialEbitda_eq[OF nb(3)]
    using assms(3) e t by simp
qed

lemma sizeFactor_partial_ebitda:
  assumes "noBand c" "partialCredit (headcountOf c) MIN_EMPLOYEES MAX_EMPLOYEES = 0"
    "partialCredit (financials_revenue c) MIN_REVENUE MAX_REVENUE = 0"
    "partialCredit (financials_ebitda c) MIN_EBITDA MAX_EBITDA \<noteq> 0"
  shows "sizeFactor c = (''ebitda'', or0 (financials_ebitda c),
           partialCredit (financials_ebitda c) MIN_EBITDA MAX_EBITDA)"
proof -
  from assms(1) have nb: "\<not> inBand (headcountOf c) MIN_EMPLOYEES MAX_EMPLOYEES"
    "\<not> inBand (financials_revenue c) MIN_REVENUE MAX_REVENUE"
    "\<not> inBand (financials_ebitda c) MIN_EBITDA MAX_EBITDA"
    by (simp_all add: noBand_def)
  from sizePartialEmployees_eq[OF nb(1)] assms(2)
  have e: "snd (snd (sizePartialEmployees (headcountOf c) (''none'', 0, 0))) = 0"
    by simp
  from assms(4) have t: "truthy (financials_ebitda c)"
    using partialCredit_falsy by blast
  have r: "snd (snd (sizePartialRevenue (financials_revenue c)
        (sizePartialEmployees (headcountOf c) (''none'', 0, 0)))) = 0"
    unfolding sizePartialRevenue_eq[OF nb(2)] using e assms(3) by simp
  show ?thesis
    unfolding sizeFactor_noBand[OF assms(1)] sizePartialEbitda_eq[OF nb(3)]
    using assms(4) r t by simp
qed


text \<open>
  C3 (as amended). The bands are tried in the order employees, revenue, EBITDA, and the first
  one satisfied is reported with 25 points; in particular a head count of 20 is always
  reported as employees with 25 points. When no band is satisfied, the reported dimension is
  the first, in the same order, whose partial credit is not zero, with that credit as its
  weight, the credit below the minimum being \<open>max 0 ((value / min) * 15)\<close>.
\<close>

theorem size_factor_priority:
  "(inBand (headcountOf c) MIN_EMPLOYEES MAX_EMPLOYEES \<longrightarrow>
      reportedSize env c =
        \<lparr>factor = ''Size (employees)'', fvalue = or0 (headcountOf c), weight = 25\<rparr>)
   \<and> (headcountOf c = Some 20 \<longrightarrow>
      reportedSize env c = \<lparr>factor = ''Size (employees)'', fvalue = 20, weight = 25\<rparr>)
   \<and> (\<not> inBand (headcountOf c) MIN_EMPLOYEES MAX_EMPLOYEES
       \<and> inBand (financials_revenue c) MIN_REVENUE MAX_REVENUE \<longrightarrow>
      reportedSize env c =
        \<lparr>factor = ''Size (revenue)'', fvalue = or0 (financials_revenue c), weight = 25\<rparr>)
   \<and> (\<not> inBand (headcountOf c) MIN_EMPLOYEES MAX_EMPLOYEES
       \<and> \<not> inBand (financials_revenue c) MIN_REVENUE MAX_REVENUE
       \<and> inBand (financials_ebitda c) MIN_EBITDA MAX_EBITDA \<longrightarrow>
      reportedSize env c =
        \<lparr>factor = ''Size (EBITDA)'', fvalue = or0 (financials_ebitda c), weight = 25\<rparr>)
   \<and> (noBand c \<and> partialCredit (headcountOf c) MIN_EMPLOYEES MAX_EMPLOYEES \<noteq> 0 \<longrightarrow>
      reportedSize env c =
        \<lparr>factor = ''Size (employees)'', fvalue = or0 (headcountOf c),
         weight = partialCredit (headcountOf c) MIN_EMPLOYEES MAX_EMPLOYEES\<rparr>)
   \<and> (noBand c \<and> partialCredit (headcountOf c) MIN_EMPLOYEES MAX_EMPLOYEES = 0
       \<and> partialCredit (financials_revenue c) MIN_REVENUE MAX_REVENUE \<noteq> 0 \<longrightarrow>
      reportedSize env c =
        \<lparr>factor = ''Size (revenue)'', fvalue = or0 (financials_revenue c),
         weight = partialCredit (financials_revenue c) MIN_REVENUE MAX_REVENUE\<rparr>)
   \<and> (noBand c \<and> partialCredit (headcountOf c) MIN_EMPLOYEES MAX_EMPLOYEES = 0
       \<and> partialCredit (financials_revenue c) MIN_REVENUE MAX_REVENUE = 0
       \<and> partialCredit (financials_ebitda c) MIN_EBITDA MAX_EBITDA \<noteq> 0 \<longrightarrow>
      reportedSize env c =
        \<lparr>factor = ''Size (EBITDA)'', fvalue = or0 (financials_ebitda c),
         weight = partialCredit (financials_ebitda c) MIN_EBITDA MAX_EBITDA\<rparr>)"
proof -
  have twenty: "headcountOf c = Some 20 \<Longrightarrow> inBand (headcountOf c) MIN_EMPLOYEES MAX_EMPLOYEES
      \<and> or0 (headcountOf c) = 20"
    by (simp add: inBand_def truthy_def or0_def band_consts)
  show ?thesis
    unfolding reportedSize_eq
    using twenty
    by (auto simp add: sizeFactor_employees_band sizeFactor_revenue_band sizeFactor_ebitda_band
        sizeFactor_partial_employees sizeFactor_partial_revenue sizeFactor_partial_ebitda
        sizeLabel_def)
qed

theorem size_factor_priority_witness:
  "inBand (headcountOf sizeExampleBand) MIN_EMPLOYEES MAX_EMPLOYEES
   \<and> headcountOf sizeExampleBand = Some 20
   \<and> reportedSize (envAt 5) sizeExampleBand
       = \<lparr>factor = ''Size (employees)'', fvalue = 20, weight = 25\<rparr>
   \<and> noBand sizeExamplePartial
   \<and> partialCredit (headcountOf sizeExamplePartial) MIN_EMPLOYEES MAX_EMPLOYEES = 0
   \<and> partialCredit (financials_revenue sizeExamplePartial) MIN_REVENUE MAX_REVENUE \<noteq> 0
   \<and> reportedSize (envAt 5) sizeExamplePartial
       = \<lparr>factor = ''Size (revenue)'', fvalue = 1500000, weight = 15 / 2\<rparr>"
  using size_factor_priority [of sizeExampleBand "envAt 5"]
    size_factor_priority [of sizeExamplePartial "envAt 5"]
  by (simp add: example_defs headcountOf_def inBand_def noBand_def partialCredit_def
      js_or_def truthy_def or0_def band_consts)

text \<open>
  With the credit below the minimum taken as \<open>(value / min) * 15\<close>, unclamped, the statement
  fails: for a head count of \<open>-5\<close> that formula gives \<open>-5\<close>, which is not zero, yet the
  source clamps it to zero and goes on to report revenue.
\<close>

theorem size_factor_claimed_formula_counterexample:
  "noBand sizeExampleNegative
   \<and> partialCredit_claimed (headcountOf sizeExampleNegative) MIN_EMPLOYEES MAX_EMPLOYEES \<noteq> 0
   \<and> reportedSize (envAt 5) sizeExampleNegative
       = \<lparr>factor = ''Size (revenue)'', fvalue = 1500000, weight = 15 / 2\<rparr>"
  by (simp add: reportedSize_eq example_defs headcountOf_def inBand_def noBand_def
      partialCredit_claimed_def js_or_def truthy_def or0_def band_consts sizeFactor_def
      sizePartialEmployees_def sizePartialRevenue_def sizePartialEbitda_def sizeLabel_def Let_def)

section \<open>Properties of matchesThesisCriteria\<close>

lemma scorerFullCredit_iff:
  "scorerFullCredit c \<longleftrightarrow>
     inBand (headcountOf c) MIN_EMPLOYEES MAX_EMPLOYEES
     \<or> inBand (financials_revenue c) MIN_REVENUE MAX_REVENUE
     \<or> inBand (financials_ebitda c) MIN_EBITDA MAX_EBITDA"
proof (cases "noBand c")
  case True
  have "snd (snd (sizeFactor c)) \<le> 15"
    unfolding sizeFactor_noBand[OF True] using sizePartial_all_bounds by blast
  then show ?thesis using True by (simp add: scorerFullCredit_def noBand_def)
next
  case False
  have "snd (snd (sizeFactor c)) = 25"
  proof (cases "inBand (headcountOf c) MIN_EMPLOYEES MAX_EMPLOYEES")
    case True
    then show ?thesis by (simp add: sizeFactor_employees_band)
  next
    case e: False
    show ?thesis
    proof (cases "inBand (financials_revenue c) MIN_REVENUE MAX_REVENUE")
      case True
      with e show ?thesis by (simp add: sizeFactor_revenue_band)
    next
      case r: False
      with e False have "inBand (financials_ebitda c) MIN_EBITDA MAX_EBITDA"
        by (simp add: noBand_def)
      with e r show ?thesis by (simp add: sizeFactor_ebitda_band)
    qed
  qed
  with False show ?thesis by (auto simp add: scorerFullCredit_def noBand_def)
qed

lemma inBand_iff: "0 < mn \<Longrightarrow> inBand v mn mx \<longleftrightarrow> mn \<le> or0 v \<and> or0 v \<le> mx"
  by (auto simp add: inBand_def truthy_def or0_def split: option.splits)

lemma sizeProfileMet_iff:
  "sizeProfileMet c \<longleftrightarrow>
     inBand (headcountOf c) MIN_EMPLOYEES MAX_EMPLOYEES
     \<or> inBand (financials_revenue c) MIN_REVENUE MAX_REVENUE
     \<or> inBand (js_or (financials_ebitda c) (financials_profit c)) MIN_EBITDA MAX_EBITDA"
  by (auto simp add: sizeProfileMet_def ebitdaInRange_def revenueInRange_def employeesInRange_def
      thesisEbitda_def thesisRevenue_def thesisEmployees_def headcountOf_def inBand_iff band_consts)

text \<open>
  C6 (as amended). Criterion 5 tests the same three bands with the same inclusive bounds as
  the scorer's full credit, on the same employee and revenue fields, but its EBITDA dimension
  reads \<^verbatim>\<open>financials.ebitda || financials.profit\<close>: it is the scorer's test on the
  record whose EBITDA is replaced by that value, and the scorer's test itself whenever EBITDA
  is present and nonzero or profit is absent or zero. The reported criterion passes when a
  band is satisfied, passes by default when there is no data (revenue, EBITDA-or-profit and
  head count each absent or zero), and fails when no band is satisfied although one of the
  three values is positive.
\<close>

theorem size_profile_band_test:
  "sizeProfileMet c
     = scorerFullCredit (c\<lparr>financials_ebitda := js_or (financials_ebitda c) (financials_profit c)\<rparr>)
   \<and> (truthy (financials_ebitda c) \<or> \<not> truthy (financials_profit c) \<longrightarrow>
        sizeProfileMet c = scorerFullCredit c)
   \<and> (sizeProfileMet c \<longrightarrow> met (criteria (matchesThesisCriteria env c) ! 7))
   \<and> (\<not> truthy (financials_revenue c)
        \<and> \<not> truthy (js_or (financials_ebitda c) (financials_profit c))
        \<and> \<not> truthy (headcountOf c) \<longrightarrow>
        met (criteria (matchesThesisCriteria env c) ! 7))
   \<and> (\<not> sizeProfileMet c
        \<and> (0 < or0 (financials_revenue c)
            \<or> 0 < or0 (js_or (financials_ebitda c) (financials_profit c))
            \<or> 0 < or0 (headcountOf c)) \<longrightarrow>
        \<not> met (criteria (matchesThesisCriteria env c) ! 7))"
proof -
  have a: "sizeProfileMet c
     = scorerFullCredit (c\<lparr>financials_ebitda := js_or (financials_ebitda c) (financials_profit c)\<rparr>)"
    unfolding sizeProfileMet_iff scorerFullCredit_iff by (simp add: headcountOf_def)
  have b: "truthy (financials_ebitda c) \<or> \<not> truthy (financials_profit c) \<Longrightarrow>
      inBand (js_or (financials_ebitda c) (financials_profit c)) MIN_EBITDA MAX_EBITDA
      = inBand (financials_ebitda c) MIN_EBITDA MAX_EBITDA"
    by (auto simp add: js_or_def inBand_def)
  have m: "met (criteria (matchesThesisCriteria env c) ! 7) = (sizeProfileMet c \<or> \<not> hasAnyData c)"
    by (simp add: matchesThesisCriteria_def Let_def)
  have z: "\<not> truthy v \<Longrightarrow> or0 v = 0" for v
    by (simp add: truthy_def or0_def split: option.splits)
  have n: "\<not> truthy (financials_revenue c)
        \<and> \<not> truthy (js_or (financials_ebitda c) (financials_profit c))
        \<and> \<not> truthy (headcountOf c) \<Longrightarrow> \<not> hasAnyData c"
    by (simp add: hasAnyData_def thesisEbitda_def thesisRevenue_def thesisEmployees_def
        headcountOf_def z)
  have p: "0 < or0 (financials_revenue c)
            \<or> 0 < or0 (js_or (financials_ebitda c) (financials_profit c))
            \<or> 0 < or0 (headcountOf c) \<Longrightarrow> hasAnyData c"
    by (auto simp add: hasAnyData_def thesisEbitda_def thesisRevenue_def thesisEmployees_def
        headcountOf_def)
  show ?thesis
    using a b n p unfolding m sizeProfileMet_iff scorerFullCredit_iff by blast
qed

text \<open>
  As stated (same fields), the claim fails for a company that has a profit of 700000 and no
  EBITDA: criterion 5 finds the EBITDA band satisfied, the scorer finds no band and reports
  no size at all.
\<close>

theorem size_profile_band_test_counterexample:
  "sizeProfileMet profitOnlyCompany \<and> \<not> scorerFullCredit profitOnlyCompany
   \<and> sizeFactor profitOnlyCompany = (''none'', 0, 0)"
  by (simp add: profitOnlyCompany_def blankCompany_def sizeProfileMet_def ebitdaInRange_def
      thesisEbitda_def scorerFullCredit_def sizeFactor_def sizePartialEmployees_def
      sizePartialRevenue_def sizePartialEbitda_def js_or_def truthy_def or0_def band_consts Let_def)

theorem size_profile_band_test_witness:
  "truthy (financials_ebitda sizeExampleBand)
   \<and> sizeProfileMet sizeExampleBand \<and> scorerFullCredit sizeExampleBand
   \<and> met (criteria (matchesThesisCriteria (envAt 5) sizeExampleBand) ! 7)
   \<and> sizeProfileMet profitOnlyCompany
   \<and> headcountOf blankCompany = None \<and> financials_revenue blankCompany = None
   \<and> js_or (financials_ebitda blankCompany) (financials_profit blankCompany) = None
   \<and> met (criteria (matchesThesisCriteria (envAt 5) blankCompany) ! 7)
   \<and> 0 < or0 (financials_revenue sizeExamplePartial)
   \<and> sizeProfileMet sizeExamplePartial = False
   \<and> met (criteria (matchesThesisCriteria (envAt 5) sizeExamplePartial) ! 7) = False"
  using size_profile_band_test [of sizeExampleBand "envAt 5"]
    size_profile_band_test [of profitOnlyCompany "envAt 5"]
    size_profile_band_test [of blankCompany "envAt 5"]
    size_profile_band_test [of sizeExamplePartial "envAt 5"]
  by (simp add: example_defs profitOnlyCompany_def sizeProfileMet_def ebitdaInRange_def
      revenueInRange_def employeesInRange_def headcountOf_def
      thesisEbitda_def thesisRevenue_def thesisEmployees_def js_or_def truthy_def or0_def band_consts)

text \<open>
  Left open by the statement above: a record whose only size values are negative. The
  per-dimension criteria of the same function count every nonzero value as data
  (\<^verbatim>\<open>ebitda === 0\<close>), while the overall check counts positive values only
  (\<^verbatim>\<open>ebitda > 0\<close>). For an EBITDA of \<open>-100000\<close> and nothing else, the EBITDA-range
  criterion fails and the size-profile criterion passes by default.
\<close>

lemma size_profile_passes_on_loss:
  "map met (criteria (matchesThesisCriteria (envAt 5) lossCompany)) ! 4 = False
   \<and> map met (criteria (matchesThesisCriteria (envAt 5) lossCompany)) ! 7 = True"
  by (simp add: matchesThesisCriteria_def Let_def lossCompany_def blankCompany_def
      sizeProfileMet_def ebitdaInRange_def revenueInRange_def employeesInRange_def hasAnyData_def
      thesisEbitda_def thesisRevenue_def thesisEmployees_def js_or_def truthy_def or0_def
      band_consts)

text \<open>
  C7. The aggregate verdict is the conjunction of the age, status, insolvency, SIC-code and
  absence-tolerant size verdicts, each as reported in the criteria list; replacing the
  technology stack, the only input of criterion 6, never changes it; and a company active
  for less than three years, so one incorporated two years ago, never matches.
\<close>

theorem thesis_matches_conjunction:
  "matches (matchesThesisCriteria env c)
     = (calculateYearsActive (now env) (date_of_incorporation c) \<ge> 3
        \<and> company_status c = Some ''active''
        \<and> (\<not> truthyFlag (has_insolvency_history c) \<and> \<not> truthyFlag (has_been_liquidated c))
        \<and> hasTargetSic (sic_codes c)
        \<and> (sizeProfileMet c \<or> \<not> hasAnyData c))
   \<and> map met (criteria (matchesThesisCriteria env c))
     = [calculateYearsActive (now env) (date_of_incorporation c) \<ge> 3,
        company_status c = Some ''active'',
        \<not> truthyFlag (has_insolvency_history c) \<and> \<not> truthyFlag (has_been_liquidated c),
        hasTargetSic (sic_codes c),
        ebitdaInRange c \<or> thesisEbitda c = 0,
        revenueInRange c \<or> thesisRevenue c = 0,
        employeesInRange c \<or> thesisEmployees c = 0,
        sizeProfileMet c \<or> \<not> hasAnyData c,
        hasMicrosoftStack c]
   \<and> matches (matchesThesisCriteria env (c\<lparr>enrichment_tech_stack := t\<rparr>))
     = matches (matchesThesisCriteria env c)
   \<and> (calculateYearsActive (now env) (date_of_incorporation c) < 3 \<longrightarrow>
        \<not> matches (matchesThesisCriteria env c))"
  by (auto simp add: matchesThesisCriteria_def Let_def sizeProfileMet_def hasAnyData_def
      ebitdaInRange_def revenueInRange_def employeesInRange_def
      thesisEbitda_def thesisRevenue_def thesisEmployees_def)

theorem thesis_matches_conjunction_witness:
  "calculateYearsActive (now (envAt 5)) (date_of_incorporation twoYearOld) = 2
   \<and> \<not> matches (matchesThesisCriteria (envAt 5) twoYearOld)
   \<and> matches (matchesThesisCriteria (envAt 5) thesisExample)
   \<and> \<not> hasMicrosoftStack thesisExample"
proof -
  have sic: "hasTargetSic [''62020 - Information technology consultancy activities'']"
    by code_simp
  show ?thesis
    using thesis_matches_conjunction [of "envAt 5" twoYearOld None]
      thesis_matches_conjunction [of "envAt 5" thesisExample None] sic
    by (simp add: example_defs twoYearOld_def thesisExample_def calculateYearsActive_def
        MILLISECONDS_PER_YEAR_def truthyFlag_def sizeProfileMet_def employeesInRange_def
        thesisEmployees_def js_or_def truthy_def or0_def band_consts hasMicrosoftStack_def)
qed

section \<open>Properties of analyzeMSPLikelihood\<close>

lemma contextPenalty_cap:
  "4 \<le> length (foundNegativeKeywords c) \<Longrightarrow> contextPenalty c = 0.3"
proof -
  assume a: "4 \<le> length (foundNegativeKeywords c)"
  then have "4 \<le> real (length (foundNegativeKeywords c))" by simp
  then have "1 - real (length (foundNegativeKeywords c)) * 0.2 \<le> 0.3" by simp
  moreover from a have "foundNegativeKeywords c \<noteq> []" by auto
  ultimately show ?thesis by (simp add: contextPenalty_def max_def)
qed

lemma mspKeywordScore_capped:
  "4 \<le> length (foundNegativeKeywords c) \<Longrightarrow> mspKeywordScore c \<le> 9"
proof -
  assume a: "4 \<le> length (foundNegativeKeywords c)"
  have "min 30 ((real (length (foundMspKeywords c)) / real (length mspKeywords)) * 30) \<le> 30"
    by simp
  then show ?thesis
    unfolding mspKeywordScore_def contextPenalty_cap[OF a] by simp
qed

text \<open>
  C4. With four or more negative-context phrases found, the context penalty is exactly
  \<open>0.3\<close>; and when in addition the service, technology, description and SIC-code
  categories contribute nothing, the weighted sum is at most 9, whatever the number of MSP
  keywords found, so the confidence is never high.
\<close>

theorem negative_context_caps_confidence:
  "(4 \<le> length (foundNegativeKeywords c) \<longrightarrow> contextPenalty c = 0.3)
   \<and> (4 \<le> length (foundNegativeKeywords c)
        \<and> serviceScore c = 0 \<and> techScore c = 0 \<and> descriptionScore c = 0 \<and> \<not> hasItSic c \<longrightarrow>
        rawScore c \<le> 9 \<and> confidence (analyzeMSPLikelihood c) \<noteq> high)"
  using mspKeywordScore_capped[of c] contextPenalty_cap[of c]
  by (auto simp add: analyzeMSPLikelihood_def confidenceOf_def rawScore_def Let_def)

theorem negative_context_caps_confidence_witness:
  "4 \<le> length (foundNegativeKeywords negativeContextExample)
   \<and> length (foundMspKeywords negativeContextExample) = 3
   \<and> serviceScore negativeContextExample = 0 \<and> techScore negativeContextExample = 0
   \<and> descriptionScore negativeContextExample = 0 \<and> \<not> hasItSic negativeContextExample
   \<and> contextPenalty negativeContextExample = 0.3
   \<and> confidence (analyzeMSPLikelihood negativeContextExample) \<noteq> high"
proof -
  have n: "length (foundNegativeKeywords negativeContextExample) = 4"
    by code_simp
  have m: "length (foundMspKeywords negativeContextExample) = 3"
    by code_simp
  have z: "foundServices negativeContextExample = [] \<and> foundInfraTech negativeContextExample = []
      \<and> descriptionMatches negativeContextExample = 0 \<and> \<not> hasItSic negativeContextExample"
    by code_simp
  show ?thesis
    using negative_context_caps_confidence [of negativeContextExample] n m z
    by (simp add: serviceScore_def techScore_def descriptionScore_def)
qed

lemma keywords_lower:
  "list_all (\<lambda>k. toLowerCase k = k \<and> k \<noteq> [] \<and> hd k \<noteq> CHR '' '') (negativeKeywords @ mspKeywords)"
  by code_simp

lemma includes_after_space:
  assumes "k \<noteq> []" "hd k \<noteq> CHR '' ''"
  shows "includes_str (CHR '' '' # s) k = includes_str s k"
  using assms by (cases k) simp_all

lemma allText_empty_enrichment:
  assumes "orEmpty (enrichment_business_keywords c) = []" "orEmpty (enrichment_services c) = []"
    "orEmpty (enrichment_tech_stack c) = []" "orEmpty (enrichment_business_description c) = []"
  shows "allText c = CHR '' '' # toLowerCase (company_name c)"
  using assms by (simp add: allText_def toLowerCase_def toLowerCase_char_def)

lemma no_pattern_in_empty:
  "length (filter (\<lambda>pattern. pattern_test pattern []) mspDescriptionPatterns) = 0"
  by code_simp

lemma found_empty_no_match:
  assumes e: "orEmpty (enrichment_business_keywords c) = []" "orEmpty (enrichment_services c) = []"
    "orEmpty (enrichment_tech_stack c) = []" "orEmpty (enrichment_business_description c) = []"
    and n: "\<forall>k \<in> set (negativeKeywords @ mspKeywords).
              \<not> includes_str (toLowerCase (company_name c)) k"
  shows "foundNegativeKeywords c = [] \<and> foundMspKeywords c = []"
proof -
  have "\<not> includes_str (allText c) (toLowerCase k)"
    if k: "k \<in> set (negativeKeywords @ mspKeywords)" for k
  proof -
    from keywords_lower k have p: "toLowerCase k = k" "k \<noteq> []" "hd k \<noteq> CHR '' ''"
      unfolding list_all_iff by blast+
    show ?thesis
      unfolding allText_empty_enrichment[OF e] p(1) includes_after_space[OF p(2,3)]
      using n k by blast
  qed
  then show ?thesis
    unfolding foundNegativeKeywords_def foundMspKeywords_def filter_empty_conv by simp
qed

lemma Math_round_0: "Math_round 0 = 0"
  by (simp add: Math_round_def)

text \<open>
  C5 (as amended). When the keyword, service and technology lists and the description are
  all empty, and moreover the company name contains no phrase of the negative or the MSP
  vocabulary and no SIC code contains 62020 or 62090, the classifier returns score 0,
  confidence low, and no indicator is found.
\<close>

theorem empty_enrichment_classification:
  assumes "orEmpty (enrichment_business_keywords c) = []" "orEmpty (enrichment_services c) = []"
    "orEmpty (enrichment_tech_stack c) = []" "orEmpty (enrichment_business_description c) = []"
    and "\<forall>k \<in> set (negativeKeywords @ mspKeywords).
              \<not> includes_str (toLowerCase (company_name c)) k"
    and "\<not> hasItSic c"
  shows "msp_score (analyzeMSPLikelihood c) = 0
         \<and> confidence (analyzeMSPLikelihood c) = low
         \<and> (\<forall>i \<in> set (indicators (analyzeMSPLikelihood c)). \<not> found i)"
proof -
  from found_empty_no_match[OF assms(1-5)]
  have f: "foundNegativeKeywords c = []" "foundMspKeywords c = []" by simp_all
  have s: "foundServices c = []" "foundInfraTech c = []"
    using assms(2,3) by (simp_all add: foundServices_def foundInfraTech_def)
  have d: "descriptionMatches c = 0"
    unfolding descriptionMatches_def assms(4) by (rule no_pattern_in_empty)
  have sp: "\<not> isSpecializedMSP c" by (simp add: isSpecializedMSP_def s)
  have r: "rawScore c = 0"
    using assms(6)
    by (simp add: rawScore_def mspKeywordScore_def serviceScore_def techScore_def
        descriptionScore_def f s d)
  show ?thesis
    using assms(6) sp
    by (simp add: analyzeMSPLikelihood_def confidenceOf_def r f s d Math_round_0)
qed

text \<open>
  Empty enrichment alone does not give that result: the company name is part of the searched
  text and the SIC codes earn ten points by themselves. A company with no enrichment and the
  SIC code 62020 scores 10, and its SIC-code indicator is found.
\<close>

theorem empty_enrichment_classification_counterexample:
  "orEmpty (enrichment_business_keywords sicOnlyCompany) = []
   \<and> orEmpty (enrichment_services sicOnlyCompany) = []
   \<and> orEmpty (enrichment_tech_stack sicOnlyCompany) = []
   \<and> orEmpty (enrichment_business_description sicOnlyCompany) = []
   \<and> msp_score (analyzeMSPLikelihood sicOnlyCompany) = 10
   \<and> found (indicators (analyzeMSPLikelihood sicOnlyCompany) ! 5)"
proof -
  have e: "orEmpty (enrichment_business_keywords sicOnlyCompany) = []"
    "orEmpty (enrichment_services sicOnlyCompany) = []"
    "orEmpty (enrichment_tech_stack sicOnlyCompany) = []"
    "orEmpty (enrichment_business_description sicOnlyCompany) = []"
    by (simp_all add: sicOnlyCompany_def blankCompany_def orEmpty_def)
  have k: "foundNegativeKeywords sicOnlyCompany = [] \<and> foundMspKeywords sicOnlyCompany = []
      \<and> hasItSic sicOnlyCompany"
    by code_simp
  have s: "foundServices sicOnlyCompany = []" "foundInfraTech sicOnlyCompany = []"
    using e by (simp_all add: foundServices_def foundInfraTech_def)
  have d: "descriptionMatches sicOnlyCompany = 0"
    unfolding descriptionMatches_def e(4) by (rule no_pattern_in_empty)
  have r: "rawScore sicOnlyCompany = 10"
    using k
    by (simp add: rawScore_def mspKeywordScore_def serviceScore_def techScore_def
        descriptionScore_def s d)
  have "Math_round 10 = 10" by (simp add: Math_round_def)
  then show ?thesis
    using e k by (simp add: analyzeMSPLikelihood_def r)
qed

theorem empty_enrichment_classification_witness:
  "orEmpty (enrichment_business_keywords blankCompany) = []
   \<and> orEmpty (enrichment_services blankCompany) = []
   \<and> orEmpty (enrichment_tech_stack blankCompany) = []
   \<and> orEmpty (enrichment_business_description blankCompany) = []
   \<and> list_all (\<lambda>k. \<not> includes_str (toLowerCase (company_name blankCompany)) k)
         (negativeKeywords @ mspKeywords)
   \<and> \<not> hasItSic blankCompany
   \<and> msp_score (analyzeMSPLikelihood blankCompany) = 0
   \<and> confidence (analyzeMSPLikelihood blankCompany) = low
   \<and> list_all (\<lambda>i. \<not> found i) (indicators (analyzeMSPLikelihood blankCompany))"
proof -
  have e: "orEmpty (enrichment_business_keywords blankCompany) = []"
    "orEmpty (enrichment_services blankCompany) = []"
    "orEmpty (enrichment_tech_stack blankCompany) = []"
    "orEmpty (enrichment_business_description blankCompany) = []"
    by (simp_all add: blankCompany_def orEmpty_def)
  have l: "list_all (\<lambda>k. \<not> includes_str (toLowerCase (company_name blankCompany)) k)
          (negativeKeywords @ mspKeywords)"
    by code_simp
  then have n: "\<forall>k \<in> set (negativeKeywords @ mspKeywords).
              \<not> includes_str (toLowerCase (company_name blankCompany)) k"
    unfolding list_all_iff .
  have h: "\<not> hasItSic blankCompany"
    by (simp add: hasItSic_def blankCompany_def)
  show ?thesis
    using empty_enrichment_classification [OF e n h] e l h
    unfolding list_all_iff by blast
qed

section \<open>Properties of calculateTrends\<close>

lemma sortByPeriodEndDesc_descending:
  "sorted (map (\<lambda>d. - period_end d) (sortByPeriodEndDesc xs))
   \<and> set (sortByPeriodEndDesc xs) = set xs
   \<and> length (sortByPeriodEndDesc xs) = length xs"
  by (simp add: sortByPeriodEndDesc_def)

lemma cagr3y_emitted_iff: "cagr3y l t \<noteq> None \<longleftrightarrow> truthyN l \<and> truthyN t"
  by (simp add: cagr3y_def Let_def)

lemma cagr_fields:
  "3 \<le> length xs \<Longrightarrow>
   revenue_growth_3y_cagr (calculateTrends xs)
     = cagr3y (revenue (sortByPeriodEndDesc xs ! 0)) (revenue (sortByPeriodEndDesc xs ! 2))
   \<and> profit_growth_3y_cagr (calculateTrends xs)
     = cagr3y (profit_after_tax (sortByPeriodEndDesc xs ! 0))
         (profit_after_tax (sortByPeriodEndDesc xs ! 2))"
  by (auto simp add: calculateTrends_def trendsOfSorted_def Let_def sortByPeriodEndDesc_def)

lemma pow2_gap: "(2::real) ^ n * 2 \<le> 2 ^ (n + 54)"
proof -
  have "(2::real) ^ n * 2 \<le> 2 ^ n * 2 ^ 54" by (intro mult_left_mono) simp_all
  then show ?thesis by (simp only: power_add)
qed

lemma pow2_above_billion: "30 \<le> n \<Longrightarrow> (10 ^ 9 :: real) < 2 ^ n"
proof -
  assume "30 \<le> n"
  then have "(2::real) ^ 30 \<le> 2 ^ n" by (intro power_increasing) simp_all
  moreover have "(10 ^ 9 :: real) < 2 ^ 30" by simp
  ultimately show ?thesis by linarith
qed

lemma threshold_bounds:
  assumes "30 \<le> n"
  shows "(10 ^ 9 :: real) < 2 ^ (n + 54) - 2 ^ n"
    and "(2::real) ^ (n + 54) - 2 ^ n \<le> 2 ^ (n + 53) / (1 / 2)"
proof -
  from pow2_gap[of n] pow2_above_billion[OF assms]
  show "(10 ^ 9 :: real) < 2 ^ (n + 54) - 2 ^ n" by linarith
  have "(2::real) ^ (n + 53) / (1 / 2) = 2 ^ (n + 53) * 2 ^ 1" by simp
  also have "\<dots> = 2 ^ (n + 53 + 1)" by (simp only: power_add)
  also have "n + 53 + 1 = n + 54" by simp
  finally have "(2::real) ^ (n + 53) / (1 / 2) = 2 ^ (n + 54)" .
  moreover have "(0::real) \<le> 2 ^ n" by simp
  ultimately show "(2::real) ^ (n + 54) - 2 ^ n \<le> 2 ^ (n + 53) / (1 / 2)" by linarith
qed

lemma overflowThreshold_shape: "overflowThreshold = 2 ^ (970 + 54) - 2 ^ 970"
proof -
  have e: "(970::nat) + 54 = 1024" by simp
  show ?thesis unfolding overflowThreshold_def e by (rule refl)
qed

lemma hugeRevenue_shape: "hugeRevenue = 2 ^ (970 + 53)"
proof -
  have e: "(970::nat) + 53 = 1023" by simp
  show ?thesis unfolding hugeRevenue_def e by (rule refl)
qed

lemma overflowThreshold_large: "(10 ^ 9 :: real) < overflowThreshold"
  unfolding overflowThreshold_shape by (rule threshold_bounds(1)) simp

lemma hugeRevenue_overflows: "overflowThreshold \<le> hugeRevenue / (1 / 2)"
  unfolding overflowThreshold_shape hugeRevenue_shape by (rule threshold_bounds(2)) simp

lemma hugeRevenue_nonzero: "hugeRevenue \<noteq> 0"
  unfolding hugeRevenue_shape by (rule power_not_zero) simp

lemma toDouble_small: "\<bar>r\<bar> \<le> 10 ^ 9 \<Longrightarrow> toDouble r = Fin r"
  using overflowThreshold_large by (auto simp add: toDouble_def)


lemma lossYears_sorted: "sortByPeriodEndDesc lossYears = rev lossYears"
  by (simp add: sortByPeriodEndDesc_def lossYears_def year_def)

lemma lossYears_trends: "calculateTrends lossYears = trendsOfSorted (rev lossYears)"
  unfolding calculateTrends_def lossYears_sorted by (simp add: lossYears_def)

lemma recoveryYears_sorted: "sortByPeriodEndDesc recoveryYears = rev recoveryYears"
  by (simp add: sortByPeriodEndDesc_def recoveryYears_def year_def)

lemma recoveryYears_trends: "calculateTrends recoveryYears = trendsOfSorted (rev recoveryYears)"
  unfolding calculateTrends_def recoveryYears_sorted by (simp add: recoveryYears_def)

lemma overflowYears_sorted: "sortByPeriodEndDesc overflowYears = rev overflowYears"
  by (simp add: sortByPeriodEndDesc_def overflowYears_def year_def)

lemma overflowYears_trends: "calculateTrends overflowYears = trendsOfSorted (rev overflowYears)"
  unfolding calculateTrends_def overflowYears_sorted by (simp add: overflowYears_def)

lemma one_third_not_integer: "(1 / 3 :: real) \<notin> \<int>"
proof
  assume "(1 / 3 :: real) \<in> \<int>"
  then obtain k :: int where "1 / 3 = (of_int k :: real)" by (auto elim: Ints_cases)
  then have "(1::real) = of_int (3 * k)" by simp
  then have "(1::int) = 3 * k" using of_int_eq_iff[of 1 "3 * k", where 'a = real] by simp
  then show False by presburger
qed

lemma cube_root_8: "(8::real) powr (1 / 3) = 2"
proof -
  have "(8::real) = 2 powr 3" by simp
  then have "(8::real) powr (1 / 3) = (2 powr 3) powr (1 / 3)" by simp
  also have "\<dots> = 2 powr (3 * (1 / 3))" by (rule powr_powr)
  finally show ?thesis by simp
qed

text \<open>
  C8. The field is emitted exactly when both values are truthy (\<open>cagr3y_emitted_iff\<close>); the
  sign of the earlier value is not tested. When the two values have opposite signs the
  quotient is negative, \<^verbatim>\<open>Math.pow\<close> of a negative base and \<open>1/3\<close> is
  \<^verbatim>\<open>NaN\<close>, and the field is emitted with that value. Here a loss of 50 is followed,
  two records later, by a profit of 100: the earlier value is not positive, the profit CAGR
  is emitted, and it is \<^verbatim>\<open>NaN\<close>.
\<close>

theorem cagr_nan_on_sign_change:
  "length recoveryYears = 3
   \<and> profit_after_tax (sortByPeriodEndDesc recoveryYears ! 0) = Number 100
   \<and> profit_after_tax (sortByPeriodEndDesc recoveryYears ! 2) = Number (- 50)
   \<and> profit_growth_3y_cagr (calculateTrends recoveryYears) = Some NaN
   \<and> \<not> isFinite NaN"
  unfolding recoveryYears_trends recoveryYears_sorted
  by (simp add: trendsOfSorted_def Let_def cagr3y_def recoveryYears_def year_def
     truthyN_def numN_def js_divide_def toDouble_small Math_pow_def js_minus_def js_times_def
     one_third_not_integer isFinite_def)

text \<open>
  Two further cases of the same guard. With losses of 1, 4 and 8 in three successive years
  the earlier value is negative and the profit CAGR is emitted as
  \<open>(8 powr (1/3) - 1) * 100 = 100\<close>. With a revenue of one half followed by \<open>2^1023\<close>
  the quotient overflows and the revenue CAGR is emitted as \<^verbatim>\<open>Infinity\<close>.
\<close>

lemma cagr_emitted_for_losses:
  "profit_after_tax (sortByPeriodEndDesc lossYears ! 2) = Number (- 1)
   \<and> profit_growth_3y_cagr (calculateTrends lossYears) = Some (Fin 100)"
  unfolding lossYears_trends lossYears_sorted
  by (simp add: trendsOfSorted_def Let_def cagr3y_def lossYears_def year_def
     truthyN_def numN_def js_divide_def toDouble_small Math_pow_def js_minus_def js_times_def
     cube_root_8)

lemma cagr_infinity_on_overflow:
  "revenue_growth_3y_cagr (calculateTrends overflowYears) = Some PosInfinity"
proof -
  have q: "js_divide hugeRevenue (1 / 2) = PosInfinity"
    using hugeRevenue_overflows by (simp add: js_divide_def toDouble_def)
  show ?thesis
    unfolding overflowYears_trends
    by (simp add: trendsOfSorted_def Let_def cagr3y_def overflowYears_def year_def
        truthyN_def numN_def hugeRevenue_nonzero q Math_pow_def js_minus_def js_times_def)
qed

text \<open>
  C10. For the empty list of records the trend calculator returns the empty object: none of
  the growth, CAGR, direction or average fields is set.
\<close>

theorem no_trends_for_no_records:
  "calculateTrends [] =
     \<lparr>revenue_growth_1y = None, profit_growth_1y = None, ebitda_growth_1y = None,
      employee_growth_1y = None, revenue_trend = None, profit_trend = None, margin_trend = None,
      revenue_growth_3y_cagr = None, profit_growth_3y_cagr = None,
      average_revenue_3y = None, average_profit_3y = None, average_ebitda_3y = None,
      average_ebitda_margin_3y = None, average_recurring_revenue_pct_3y = None\<rparr>"
  by (simp add: calculateTrends_def emptyTrends_def)


section \<open>Inputs are read, never written\<close>

text \<open>
  Each function on the heap returns what the function on values returns for the content of
  its argument, and leaves the heap extended by the arrays it created, every earlier cell
  as it was.
\<close>

lemma deref_old: "r < length h \<Longrightarrow> deref (h @ hs) r = Some (h ! r)"
  by (simp add: deref_def nth_append)

lemma pushFactor_fresh:
  "pushFactor (length h) x (h @ [FactorArray xs]) = h @ [FactorArray (xs @ [x])]"
  by (simp add: pushFactor_def deref_def)

lemma readFactors_fresh: "readFactors (h @ [FactorArray xs]) (length h) = xs"
  by (simp add: readFactors_def deref_def)

lemma pushCriterion_fresh:
  "pushCriterion (length h) x (h @ [CriterionArray xs]) = h @ [CriterionArray (xs @ [x])]"
  by (simp add: pushCriterion_def deref_def)

lemma readCriteria_fresh: "readCriteria (h @ [CriterionArray xs]) (length h) = xs"
  by (simp add: readCriteria_def deref_def)

lemma pushIndicator_fresh:
  "pushIndicator (length h) x (h @ [IndicatorArray xs]) = h @ [IndicatorArray (xs @ [x])]"
  by (simp add: pushIndicator_def deref_def)

lemma readIndicators_fresh: "readIndicators (h @ [IndicatorArray xs]) (length h) = xs"
  by (simp add: readIndicators_def deref_def)

lemma calculateInvestmentScore_heap_eq:
  assumes "deref h a = Some (CompanyCell c)"
  shows "calculateInvestmentScore_heap env a h =
           Some (calculateInvestmentScore env c,
                 h @ [FactorArray (factors (calculateInvestmentScore env c))])"
  using assms
  by (simp add: calculateInvestmentScore_heap_def calculateInvestmentScore_def alloc_def Let_def
      pushFactor_fresh readFactors_fresh split: prod.splits)

lemma matchesThesisCriteria_heap_eq:
  assumes "deref h a = Some (CompanyCell c)"
  shows "matchesThesisCriteria_heap env a h =
           Some (matchesThesisCriteria env c,
                 h @ [CriterionArray (criteria (matchesThesisCriteria env c))])"
  using assms
  by (simp add: matchesThesisCriteria_heap_def matchesThesisCriteria_def alloc_def Let_def
      pushCriterion_fresh readCriteria_fresh)

lemma analyzeMSPLikelihood_heap_eq:
  assumes "deref h a = Some (CompanyCell c)"
  shows "analyzeMSPLikelihood_heap a h =
           Some (analyzeMSPLikelihood c,
                 h @ [IndicatorArray (indicators (analyzeMSPLikelihood c))])"
  using assms
  by (simp add: analyzeMSPLikelihood_heap_def analyzeMSPLikelihood_def alloc_def Let_def
      pushIndicator_fresh readIndicators_fresh)

lemma calculateTrends_heap_eq:
  assumes "deref h b = Some (AnnualDataArray xs)"
  shows "calculateTrends_heap b h =
           Some (calculateTrends xs,
                 if length xs < 1 then h else h @ [AnnualDataArray (sortByPeriodEndDesc xs)])"
  using assms
  by (simp add: calculateTrends_heap_def calculateTrends_def spreadCopy_def alloc_def
      readAnnualData_def sortInPlace_def deref_def Let_def)

lemma deref_iff: "deref h r = Some v \<longleftrightarrow> r < length h \<and> h ! r = v"
  by (auto simp add: deref_def)

lemma callTwice_eq:
  assumes "f h = Some (r1, h @ hs)" "g (h @ hs) = Some (r2, (h @ hs) @ hs')"
  shows "callTwice f g h = Some (r1, r2, h @ hs @ hs')"
  using assms by (simp add: callTwice_def)


lemma deref_kept: "deref h r = Some v \<Longrightarrow> deref (h @ hs) r = Some v"
  by (auto simp add: deref_def nth_append split: if_splits)

lemma calculateInvestmentScore_twice:
  assumes "deref h a = Some (CompanyCell c)"
  shows "callTwice (calculateInvestmentScore_heap e1 a) (calculateInvestmentScore_heap e2 a) h =
           Some (calculateInvestmentScore e1 c, calculateInvestmentScore e2 c,
                 h @ [FactorArray (factors (calculateInvestmentScore e1 c))]
                   @ [FactorArray (factors (calculateInvestmentScore e2 c))])"
  by (rule callTwice_eq)
     (simp_all add: calculateInvestmentScore_heap_eq assms deref_kept)

lemma matchesThesisCriteria_twice:
  assumes "deref h a = Some (CompanyCell c)"
  shows "callTwice (matchesThesisCriteria_heap e1 a) (matchesThesisCriteria_heap e2 a) h =
           Some (matchesThesisCriteria e1 c, matchesThesisCriteria e2 c,
                 h @ [CriterionArray (criteria (matchesThesisCriteria e1 c))]
                   @ [CriterionArray (criteria (matchesThesisCriteria e2 c))])"
  by (rule callTwice_eq)
     (simp_all add: matchesThesisCriteria_heap_eq assms deref_kept)

lemma analyzeMSPLikelihood_twice:
  assumes "deref h a = Some (CompanyCell c)"
  shows "callTwice (analyzeMSPLikelihood_heap a) (analyzeMSPLikelihood_heap a) h =
           Some (analyzeMSPLikelihood c, analyzeMSPLikelihood c,
                 h @ [IndicatorArray (indicators (analyzeMSPLikelihood c))]
                   @ [IndicatorArray (indicators (analyzeMSPLikelihood c))])"
  by (rule callTwice_eq)
     (simp_all add: analyzeMSPLikelihood_heap_eq assms deref_kept)

lemma calculateTrends_twice:
  assumes "deref h b = Some (AnnualDataArray xs)"
  shows "callTwice (calculateTrends_heap b) (calculateTrends_heap b) h =
           Some (calculateTrends xs, calculateTrends xs,
                 h @ (if length xs < 1 then []
                      else [AnnualDataArray (sortByPeriodEndDesc xs),
                            AnnualDataArray (sortByPeriodEndDesc xs)]))"
proof (cases "length xs < 1")
  case True
  then show ?thesis
    by (simp add: callTwice_def calculateTrends_heap_eq[OF assms])
next
  case False
  have "callTwice (calculateTrends_heap b) (calculateTrends_heap b) h =
          Some (calculateTrends xs, calculateTrends xs,
                h @ [AnnualDataArray (sortByPeriodEndDesc xs)]
                  @ [AnnualDataArray (sortByPeriodEndDesc xs)])"
    using False
    by (intro callTwice_eq)
       (simp_all add: calculateTrends_heap_eq assms deref_kept)
  then show ?thesis using False by simp
qed

lemma locationDistance_cong:
  "investment_score_location_distance_km c \<noteq> None
   \<or> getDistanceFromLondon e1 (registered_address c) (registered_address_structured c)
     = getDistanceFromLondon e2 (registered_address c) (registered_address_structured c) \<Longrightarrow>
   locationDistance e1 c = locationDistance e2 c"
  by (auto simp add: locationDistance_def split: option.splits)

lemma calculateInvestmentScore_cong:
  "now e1 = now e2 \<Longrightarrow> locationDistance e1 c = locationDistance e2 c \<Longrightarrow>
   calculateInvestmentScore e1 c = calculateInvestmentScore e2 c"
  by (simp add: calculateInvestmentScore_def)

lemma matchesThesisCriteria_cong:
  "now e1 = now e2 \<Longrightarrow> matchesThesisCriteria e1 c = matchesThesisCriteria e2 c"
  by (simp add: matchesThesisCriteria_def)

text \<open>
  C9 (as amended). Let a heap hold a company record at \<open>a\<close> and an array of annual records
  at \<open>b\<close>. Each of the four functions, called twice in a row, returns both times and leaves
  every cell that existed before the first call unchanged, the company record and the
  array of annual records among them; what it returns is the value that the function on
  values gives for the content of its argument. The two results of the classifier are
  equal, and so are the two results of the trend calculator. The two results of the thesis
  matcher are equal when the clock reads the same at both calls; those of the scorer when,
  besides, the distance is cached on the record or the resolver gives the same answer for
  the record's address.
\<close>

theorem repeated_calls_on_unchanged_input:
  assumes "a < length h" "h ! a = CompanyCell c" "b < length h" "h ! b = AnnualDataArray xs"
  shows
    "map_option fst (calculateInvestmentScore_heap e1 a h) = Some (calculateInvestmentScore e1 c)
     \<and> map_option (take (length h))
          (finalHeap (callTwice (calculateInvestmentScore_heap e1 a)
                        (calculateInvestmentScore_heap e2 a) h)) = Some h
     \<and> (now e1 = now e2
          \<and> (investment_score_location_distance_km c \<noteq> None
              \<or> getDistanceFromLondon e1 (registered_address c) (registered_address_structured c)
                = getDistanceFromLondon e2 (registered_address c)
                    (registered_address_structured c)) \<longrightarrow>
         sameResults (callTwice (calculateInvestmentScore_heap e1 a)
                        (calculateInvestmentScore_heap e2 a) h) = Some True)
     \<and> map_option fst (matchesThesisCriteria_heap e1 a h) = Some (matchesThesisCriteria e1 c)
     \<and> map_option (take (length h))
          (finalHeap (callTwice (matchesThesisCriteria_heap e1 a)
                        (matchesThesisCriteria_heap e2 a) h)) = Some h
     \<and> (now e1 = now e2 \<longrightarrow>
         sameResults (callTwice (matchesThesisCriteria_heap e1 a)
                        (matchesThesisCriteria_heap e2 a) h) = Some True)
     \<and> map_option fst (analyzeMSPLikelihood_heap a h) = Some (analyzeMSPLikelihood c)
     \<and> map_option (take (length h))
          (finalHeap (callTwice (analyzeMSPLikelihood_heap a) (analyzeMSPLikelihood_heap a) h))
         = Some h
     \<and> sameResults (callTwice (analyzeMSPLikelihood_heap a) (analyzeMSPLikelihood_heap a) h)
         = Some True
     \<and> map_option fst (calculateTrends_heap b h) = Some (calculateTrends xs)
     \<and> map_option (take (length h))
          (finalHeap (callTwice (calculateTrends_heap b) (calculateTrends_heap b) h)) = Some h
     \<and> sameResults (callTwice (calculateTrends_heap b) (calculateTrends_heap b) h) = Some True"
proof -
  from assms have da: "deref h a = Some (CompanyCell c)"
    and db: "deref h b = Some (AnnualDataArray xs)"
    by (simp_all add: deref_def)
  have s: "now e1 = now e2
          \<and> (investment_score_location_distance_km c \<noteq> None
              \<or> getDistanceFromLondon e1 (registered_address c) (registered_address_structured c)
                = getDistanceFromLondon e2 (registered_address c)
                    (registered_address_structured c)) \<Longrightarrow>
      calculateInvestmentScore e1 c = calculateInvestmentScore e2 c"
    using calculateInvestmentScore_cong locationDistance_cong by blast
  show ?thesis
    unfolding calculateInvestmentScore_twice[OF da] matchesThesisCriteria_twice[OF da]
      analyzeMSPLikelihood_twice[OF da] calculateTrends_twice[OF db]
      calculateInvestmentScore_heap_eq[OF da] matchesThesisCriteria_heap_eq[OF da]
      analyzeMSPLikelihood_heap_eq[OF da] calculateTrends_heap_eq[OF db]
    using s matchesThesisCriteria_cong[of e1 e2 c]
    by (simp add: finalHeap_def sameResults_def)
qed


theorem repeated_calls_on_unchanged_input_witness:
  "0 < length exampleHeap \<and> exampleHeap ! 0 = CompanyCell cachedCompany
   \<and> 1 < length exampleHeap \<and> exampleHeap ! 1 = AnnualDataArray lossYears
   \<and> now (envAt 1) = now envOtherResolver
   \<and> investment_score_location_distance_km cachedCompany = Some 10
   \<and> getDistanceFromLondon (envAt 1) None None = None
   \<and> getDistanceFromLondon envOtherResolver None None = Some 500
   \<and> sameResults (callTwice (calculateInvestmentScore_heap (envAt 1) 0)
                     (calculateInvestmentScore_heap envOtherResolver 0) exampleHeap) = Some True
   \<and> sameResults (callTwice (matchesThesisCriteria_heap (envAt 1) 0)
                     (matchesThesisCriteria_heap envOtherResolver 0) exampleHeap) = Some True
   \<and> sameResults (callTwice (analyzeMSPLikelihood_heap 0) (analyzeMSPLikelihood_heap 0)
                     exampleHeap) = Some True
   \<and> sameResults (callTwice (calculateTrends_heap 1) (calculateTrends_heap 1) exampleHeap)
       = Some True
   \<and> map_option (take 2)
        (finalHeap (callTwice (calculateTrends_heap 1) (calculateTrends_heap 1) exampleHeap))
       = Some exampleHeap"
proof -
  have h: "0 < length exampleHeap" "exampleHeap ! 0 = CompanyCell cachedCompany"
    "1 < length exampleHeap" "exampleHeap ! 1 = AnnualDataArray lossYears"
    "length exampleHeap = 2"
    by (simp_all add: exampleHeap_def)
  have e: "now (envAt 1) = now envOtherResolver"
    "investment_score_location_distance_km cachedCompany = Some 10"
    "getDistanceFromLondon (envAt 1) None None = None"
    "getDistanceFromLondon envOtherResolver None None = Some 500"
    by (simp_all add: envAt_def envOtherResolver_def cachedCompany_def blankCompany_def)
  show ?thesis
    using repeated_calls_on_unchanged_input [OF h(1-4), of "envAt 1" envOtherResolver] h e
    by simp
qed

text \<open>
  Without the provisos the claim fails. The age factor reports the years active at the moment
  of the call, so a second call one millisecond after the first, on the same unchanged
  record, returns a different factor list. And for a record with no cached distance the
  location factor reports what the resolver answers at the moment of the call: no answer at
  the first call and an answer of 500 km at the second give different factor lists.
\<close>

lemma years_active_one_ms_later:
  "fvalue (factors (calculateInvestmentScore (envAt 1) cachedCompany) ! 0) = 1
   \<and> fvalue (factors (calculateInvestmentScore envLater cachedCompany) ! 0)
       = 31536000001 / 31536000000"
  by (simp add: calculateInvestmentScore_def Let_def envAt_def envLater_def cachedCompany_def
      blankCompany_def calculateYearsActive_def MILLISECONDS_PER_YEAR_def split: prod.splits)

lemma distance_resolved_later:
  "fvalue (factors (calculateInvestmentScore (envAt 1) addressedCompany) ! 3) = 0
   \<and> fvalue (factors (calculateInvestmentScore envOtherResolver addressedCompany) ! 3) = 500"
  by (simp add: calculateInvestmentScore_def Let_def envAt_def envOtherResolver_def
      addressedCompany_def blankCompany_def locationDistance_def Math_round_def
      split: prod.splits)

theorem repeated_call_differs:
  "sameResults (callTwice (calculateInvestmentScore_heap (envAt 1) 0)
                  (calculateInvestmentScore_heap envLater 0) exampleHeap) = Some False
   \<and> now (envAt 1) = now envOtherResolver
   \<and> sameResults (callTwice (calculateInvestmentScore_heap (envAt 1) 0)
                    (calculateInvestmentScore_heap envOtherResolver 0)
                    [CompanyCell addressedCompany]) = Some False"
proof -
  have d: "deref exampleHeap 0 = Some (CompanyCell cachedCompany)"
    by (simp add: deref_def exampleHeap_def)
  have "fvalue (factors (calculateInvestmentScore (envAt 1) cachedCompany) ! 0)
      \<noteq> fvalue (factors (calculateInvestmentScore envLater cachedCompany) ! 0)"
    using years_active_one_ms_later by simp
  then have c: "calculateInvestmentScore (envAt 1) cachedCompany
       \<noteq> calculateInvestmentScore envLater cachedCompany" by auto
  have d': "deref [CompanyCell addressedCompany] 0 = Some (CompanyCell addressedCompany)"
    by (simp add: deref_def)
  have "fvalue (factors (calculateInvestmentScore (envAt 1) addressedCompany) ! 3)
      \<noteq> fvalue (factors (calculateInvestmentScore envOtherResolver addressedCompany) ! 3)"
    using distance_resolved_later by simp
  then have r: "calculateInvestmentScore (envAt 1) addressedCompany
       \<noteq> calculateInvestmentScore envOtherResolver addressedCompany" by auto
  have n: "now (envAt 1) = now envOtherResolver"
    by (simp add: envAt_def envOtherResolver_def)
  show ?thesis
    unfolding calculateInvestmentScore_twice[OF d] calculateInvestmentScore_twice[OF d']
    using c r n by (simp add: sameResults_def)
qed

end
